theory Spec2Isabelle
  imports Complex_Main
begin

section \<open>Data model\<close>

text \<open>
  JavaScript numbers are modelled as \<^typ>\<open>real\<close>: the development is about the
  arithmetic and the control flow of the simulation, not about rounding.
  A component object is owned by exactly one entity, as the factories build them, so a
  component is modelled as a value held by its entity.
\<close>

subsection \<open>Vectors (the parts of three.js the systems use)\<close>

record vec3 =
  x :: real
  y :: real
  z :: real

definition Vector3 :: "real \<Rightarrow> real \<Rightarrow> real \<Rightarrow> vec3" where
  "Vector3 a b c = \<lparr>x = a, y = b, z = c\<rparr>"

text \<open>\<^verbatim>\<open>Vector3.length\<close>, \<^verbatim>\<open>distanceTo\<close>, \<^verbatim>\<open>dot\<close>, \<^verbatim>\<open>subVectors\<close>,
  \<^verbatim>\<open>multiplyScalar\<close>, \<^verbatim>\<open>add\<close>.\<close>

definition vlength :: "vec3 \<Rightarrow> real" where
  "vlength v = sqrt (x v * x v + y v * y v + z v * z v)"

definition subVectors :: "vec3 \<Rightarrow> vec3 \<Rightarrow> vec3" where
  "subVectors a b = Vector3 (x a - x b) (y a - y b) (z a - z b)"

definition distanceTo :: "vec3 \<Rightarrow> vec3 \<Rightarrow> real" where
  "distanceTo a b = vlength (subVectors a b)"

definition dot :: "vec3 \<Rightarrow> vec3 \<Rightarrow> real" where
  "dot a b = x a * x b + y a * y b + z a * z b"

definition multiplyScalar :: "vec3 \<Rightarrow> real \<Rightarrow> vec3" where
  "multiplyScalar v s = Vector3 (x v * s) (y v * s) (z v * s)"

definition addVectors :: "vec3 \<Rightarrow> vec3 \<Rightarrow> vec3" where
  "addVectors a b = Vector3 (x a + x b) (y a + y b) (z a + z b)"

text \<open>\<^verbatim>\<open>normalize() { return this.divideScalar(this.length() || 1) }\<close>: a zero vector
  is divided by 1 and stays zero.\<close>

definition normalize :: "vec3 \<Rightarrow> vec3" where
  "normalize v = multiplyScalar v (1 / (if vlength v = 0 then 1 else vlength v))"

text \<open>\<^verbatim>\<open>Vector2\<close> is a pair; its \<^verbatim>\<open>length\<close>, \<^verbatim>\<open>normalize\<close> and
  \<^verbatim>\<open>multiplyScalar\<close>.\<close>

type_synonym vec2 = "real \<times> real"

definition length2 :: "vec2 \<Rightarrow> real" where
  "length2 v = sqrt (fst v * fst v + snd v * snd v)"

definition multiplyScalar2 :: "vec2 \<Rightarrow> real \<Rightarrow> vec2" where
  "multiplyScalar2 v s = (fst v * s, snd v * s)"

definition normalize2 :: "vec2 \<Rightarrow> vec2" where
  "normalize2 v = multiplyScalar2 v (1 / (if length2 v = 0 then 1 else length2 v))"

subsection \<open>Constants (\<^verbatim>\<open>utils/Constants.js\<close>)\<close>

definition GRAVITY :: real where "GRAVITY = 15 / 1000"
definition MARBLE_SPEED :: real where "MARBLE_SPEED = 5 / 1000"
definition JUMP_POWER :: real where "JUMP_POWER = 4 / 10"
definition AIR_CONTROL_FACTOR :: real where "AIR_CONTROL_FACTOR = 3 / 10"
definition GROUND_FRICTION :: real where "GROUND_FRICTION = 97 / 100"
definition AIR_FRICTION :: real where "AIR_FRICTION = 99 / 100"
definition BOUNCE_COEFFICIENT :: real where "BOUNCE_COEFFICIENT = 3 / 10"
definition MARBLE_RADIUS :: real where "MARBLE_RADIUS = 8 / 10"
definition PLATFORM_SIZE :: real where "PLATFORM_SIZE = 100"

subsection \<open>Components\<close>

record transform =
  position :: vec3
  rotation :: vec3
  scale :: vec3
  previousPosition :: vec3

record physics =
  velocity :: vec3
  mass :: real
  gravity :: real
  friction :: real
  airFriction :: real
  bounceCoefficient :: real
  isOnGround :: bool
  isStatic :: bool

record jump =
  jumpPower :: real
  isJumping :: bool
  isFalling :: bool
  isOnSurface :: bool
  jumpRequested :: bool
  canJump :: bool
  jumpCooldown :: real
  jumpCooldownTime :: real

text \<open>\<^verbatim>\<open>PlayerControl\<close>: \<open>moveDirection\<close> is the object \<^verbatim>\<open>{x, z}\<close>, here the pair
  \<open>(x, z)\<close>. Its own \<^verbatim>\<open>jumpRequested\<close> field is never read by any system and is left
  out.\<close>

record playerControl =
  speed :: real
  airControlFactor :: real
  moveDirection :: vec2

text \<open>\<^verbatim>\<open>Collider\<close>: the \<^verbatim>\<open>type\<close> string together with the \<^verbatim>\<open>params\<close> it is read
  with; any other type string is \<open>OtherShape\<close>.\<close>

datatype shape =
    Sphere real
  | Box real real real
  | Torus real real
  | OtherShape

record collider =
  ctype :: shape
  isTrigger :: bool

record surface =
  friction :: real
  bounciness :: real
  isJumpable :: bool
  isRamp :: bool
  rampAngle :: real
  slideFactor :: real

text \<open>An entity: its id and the components \<^verbatim>\<open>getComponent\<close> finds (\<open>None\<close> for
  \<^verbatim>\<open>undefined\<close>).\<close>

record entity =
  entityId :: nat
  Transform :: "transform option"
  Physics :: "physics option"
  Collider :: "collider option"
  Surface :: "surface option"
  Jump :: "jump option"
  PlayerControl :: "playerControl option"
  MarbleTag :: bool

text \<open>The constructors, with the defaults of the source.\<close>

definition newTransform :: "vec3 \<Rightarrow> transform" where
  "newTransform p = \<lparr>position = p, rotation = Vector3 0 0 0, scale = Vector3 1 1 1,
     previousPosition = p\<rparr>"

definition newPhysics :: "real \<Rightarrow> real \<Rightarrow> physics" where
  "newPhysics m g = \<lparr>velocity = Vector3 0 0 0, mass = m, gravity = g,
     physics.friction = GROUND_FRICTION, airFriction = AIR_FRICTION,
     bounceCoefficient = BOUNCE_COEFFICIENT, isOnGround = False, isStatic = False\<rparr>"

definition newJump :: "real \<Rightarrow> jump" where
  "newJump jp = \<lparr>jumpPower = jp, isJumping = False, isFalling = False, isOnSurface = True,
     jumpRequested = False, canJump = True, jumpCooldown = 0, jumpCooldownTime = 2 / 10\<rparr>"

definition newPlayerControl :: "real \<Rightarrow> playerControl" where
  "newPlayerControl s = \<lparr>speed = s, airControlFactor = AIR_CONTROL_FACTOR,
     moveDirection = (0, 0)\<rparr>"

definition newCollider :: "shape \<Rightarrow> collider" where
  "newCollider s = \<lparr>ctype = s, isTrigger = False\<rparr>"

definition newSurface :: "real \<Rightarrow> surface" where
  "newSurface f = \<lparr>surface.friction = f, bounciness = BOUNCE_COEFFICIENT, isJumpable = True,
     isRamp = False, rampAngle = 0, slideFactor = 1\<rparr>"

text \<open>\<^verbatim>\<open>MarbleFactory.create(world, position)\<close>, for the entity with the given id.\<close>

definition createMarble :: "nat \<Rightarrow> vec3 \<Rightarrow> entity" where
  "createMarble i p = \<lparr>entityId = i, Transform = Some (newTransform p),
     Physics = Some (newPhysics 1 GRAVITY),
     Collider = Some (newCollider (Sphere MARBLE_RADIUS)),
     Surface = None, Jump = Some (newJump JUMP_POWER),
     PlayerControl = Some (newPlayerControl MARBLE_SPEED), MarbleTag = True\<rparr>"

section \<open>The jump component (\<^verbatim>\<open>components/Jump.js\<close>)\<close>

definition requestJump :: "jump \<Rightarrow> jump" where
  "requestJump j =
     (if canJump j \<and> isOnSurface j \<and> \<not> isJumping j \<and> jumpCooldown j \<le> 0
      then j\<lparr>jumpRequested := True\<rparr> else j)"

text \<open>Returns the component and the boolean the method returns.\<close>

definition executeJumpIfRequested :: "jump \<Rightarrow> jump \<times> bool" where
  "executeJumpIfRequested j =
     (if jumpRequested j
      then (j\<lparr>isJumping := True, isOnSurface := False, jumpRequested := False,
               jumpCooldown := jumpCooldownTime j\<rparr>, True)
      else (j, False))"

definition updateCooldown :: "jump \<Rightarrow> real \<Rightarrow> jump" where
  "updateCooldown j deltaTime =
     (if jumpCooldown j > 0 then j\<lparr>jumpCooldown := jumpCooldown j - deltaTime\<rparr> else j)"

section \<open>The integrator (\<^verbatim>\<open>systems/PhysicsSystem.js\<close>)\<close>

definition savePreviousPosition :: "transform \<Rightarrow> transform" where
  "savePreviousPosition t = t\<lparr>previousPosition := position t\<rparr>"

definition processPlayerMovement :: "physics \<Rightarrow> playerControl \<Rightarrow> physics" where
  "processPlayerMovement p pc =
     (let direction = moveDirection pc;
          spd = (if isOnGround p then speed pc else speed pc * airControlFactor pc);
          v = velocity p
      in p\<lparr>velocity := v\<lparr>x := x v + fst direction * spd, z := z v + snd direction * spd\<rparr>\<rparr>)"

text \<open>\<^verbatim>\<open>processJumping\<close> is four blocks in sequence: the cooldown update, the launch
  (\<^verbatim>\<open>if (jump.executeJumpIfRequested()) {...}\<close>), gravity while off the surface, and the
  apex check.\<close>

definition jumpLaunch :: "transform \<times> physics \<times> jump \<Rightarrow> transform \<times> physics \<times> jump" where
  "jumpLaunch s =
     (case s of (t, p, j) \<Rightarrow>
        (case executeJumpIfRequested j of
           (j', executed) \<Rightarrow>
             if executed
             then (t\<lparr>position := (position t)\<lparr>y := y (position t) + 5 / 100\<rparr>\<rparr>,
                   p\<lparr>velocity := (velocity p)\<lparr>y := jumpPower j'\<rparr>\<rparr>, j')
             else (t, p, j')))"

definition jumpGravity :: "transform \<times> physics \<times> jump \<Rightarrow> transform \<times> physics \<times> jump" where
  "jumpGravity s =
     (case s of (t, p, j) \<Rightarrow>
        if \<not> isOnSurface j
        then (t, p\<lparr>velocity := (velocity p)\<lparr>y := y (velocity p) - gravity p\<rparr>\<rparr>, j)
        else (t, p, j))"

definition jumpApex :: "transform \<times> physics \<times> jump \<Rightarrow> transform \<times> physics \<times> jump" where
  "jumpApex s =
     (case s of (t, p, j) \<Rightarrow>
        if isJumping j \<and> y (velocity p) < 0
        then (t, p, j\<lparr>isJumping := False, isFalling := True\<rparr>)
        else (t, p, j))"

definition processJumping ::
  "transform \<times> physics \<times> jump \<Rightarrow> real \<Rightarrow> transform \<times> physics \<times> jump" where
  "processJumping s deltaTime =
     (case s of (t, p, j) \<Rightarrow>
        jumpApex (jumpGravity (jumpLaunch (t, p, updateCooldown j deltaTime))))"

text \<open>The end of the loop body: position integration, then friction on x and z.\<close>

definition integratePosition :: "transform \<Rightarrow> physics \<Rightarrow> transform" where
  "integratePosition t p =
     t\<lparr>position := Vector3 (x (position t) + x (velocity p))
                           (y (position t) + y (velocity p))
                           (z (position t) + z (velocity p))\<rparr>"

definition applyFriction :: "physics \<Rightarrow> physics" where
  "applyFriction p =
     (let v = velocity p;
          f = (if isOnGround p then physics.friction p else airFriction p)
      in p\<lparr>velocity := v\<lparr>x := x v * f, z := z v * f\<rparr>\<rparr>)"

text \<open>The body of the loop of \<^verbatim>\<open>PhysicsSystem.update\<close> for one entity. Entities without
  Transform or Physics are not returned by \<^verbatim>\<open>getEntities\<close>; static ones are skipped.\<close>

definition physicsEntity :: "real \<Rightarrow> entity \<Rightarrow> entity" where
  "physicsEntity deltaTime e =
     (case (Transform e, Physics e) of
        (Some t, Some p) \<Rightarrow>
          if isStatic p then e
          else
            let t1 = savePreviousPosition t;
                p1 = (case PlayerControl e of
                        Some pc \<Rightarrow> processPlayerMovement p pc
                      | None \<Rightarrow> p);
                (t2, p2, jo) =
                  (case Jump e of
                     Some j \<Rightarrow>
                       (case processJumping (t1, p1, j) deltaTime of
                          (t', p', j') \<Rightarrow> (t', p', Some j'))
                   | None \<Rightarrow>
                       (t1,
                        if \<not> isOnGround p1
                        then p1\<lparr>velocity := (velocity p1)\<lparr>y := y (velocity p1) - gravity p1\<rparr>\<rparr>
                        else p1,
                        None));
                t3 = integratePosition t2 p2;
                p3 = applyFriction p2
            in e\<lparr>Transform := Some t3, Physics := Some p3, Jump := jo\<rparr>
      | _ \<Rightarrow> e)"

definition physicsUpdate :: "real \<Rightarrow> entity list \<Rightarrow> entity list" where
  "physicsUpdate deltaTime world = map (physicsEntity deltaTime) world"

section \<open>The jump transition pass (\<^verbatim>\<open>systems/JumpSystem.ts\<close>)\<close>

definition jumpEntity :: "real \<Rightarrow> entity \<Rightarrow> entity" where
  "jumpEntity deltaTime e =
     (case (Transform e, Physics e, Jump e) of
        (Some t, Some p, Some j) \<Rightarrow>
          let (p1, j1) =
                (if (isJumping j \<or> isFalling j) \<and> isOnSurface j
                 then (p\<lparr>velocity := (velocity p)\<lparr>y := 0\<rparr>\<rparr>,
                       j\<lparr>isJumping := False, isFalling := False\<rparr>)
                 else (p, j));
              j2 = (if isJumping j1 \<and> y (velocity p1) < 0
                    then j1\<lparr>isJumping := False, isFalling := True\<rparr> else j1);
              j3 = (if \<not> isOnSurface j2 \<and> \<not> isJumping j2 \<and> \<not> isFalling j2
                    then j2\<lparr>isFalling := True\<rparr> else j2)
          in e\<lparr>Physics := Some p1, Jump := Some j3\<rparr>
      | _ \<Rightarrow> e)"

definition jumpUpdate :: "real \<Rightarrow> entity list \<Rightarrow> entity list" where
  "jumpUpdate deltaTime world = map (jumpEntity deltaTime) world"

section \<open>Collision detection and response (\<^verbatim>\<open>systems/CollisionSystem.js\<close>)\<close>

subsection \<open>Rotation matrices of three.js\<close>

text \<open>
  The systems only build pure rotations with \<^verbatim>\<open>Matrix4.makeRotationFromEuler\<close> (Euler
  order XYZ, the default), invert them and apply them to points. For such a matrix the
  fourth row and column are those of the identity, so the 3 by 3 block is all that
  \<^verbatim>\<open>applyMatrix4\<close> and \<^verbatim>\<open>invert\<close> read; \<open>nij\<close> is the entry of row \<open>i\<close>, column \<open>j\<close>.
  \<^verbatim>\<open>invert\<close> divides the adjugate by the determinant and returns the zero matrix when
  the determinant is 0.
\<close>

record mat3 =
  n11 :: real  n12 :: real  n13 :: real
  n21 :: real  n22 :: real  n23 :: real
  n31 :: real  n32 :: real  n33 :: real

definition makeRotationFromEuler :: "vec3 \<Rightarrow> mat3" where
  "makeRotationFromEuler r =
     (let a = cos (x r); b = sin (x r);
          c = cos (y r); d = sin (y r);
          e = cos (z r); f = sin (z r);
          ae = a * e; af = a * f; be = b * e; bf = b * f
      in \<lparr>n11 = c * e,       n12 = - c * f,      n13 = d,
          n21 = af + be * d, n22 = ae - bf * d,  n23 = - b * c,
          n31 = bf - ae * d, n32 = be + af * d,  n33 = a * c\<rparr>)"

definition determinant :: "mat3 \<Rightarrow> real" where
  "determinant m =
     n11 m * (n22 m * n33 m - n23 m * n32 m)
     - n12 m * (n21 m * n33 m - n23 m * n31 m)
     + n13 m * (n21 m * n32 m - n22 m * n31 m)"

definition invert :: "mat3 \<Rightarrow> mat3" where
  "invert m =
     (let det = determinant m in
      if det = 0
      then \<lparr>n11 = 0, n12 = 0, n13 = 0, n21 = 0, n22 = 0, n23 = 0, n31 = 0, n32 = 0, n33 = 0\<rparr>
      else
        \<lparr>n11 = (n22 m * n33 m - n23 m * n32 m) / det,
         n12 = (n13 m * n32 m - n12 m * n33 m) / det,
         n13 = (n12 m * n23 m - n13 m * n22 m) / det,
         n21 = (n23 m * n31 m - n21 m * n33 m) / det,
         n22 = (n11 m * n33 m - n13 m * n31 m) / det,
         n23 = (n13 m * n21 m - n11 m * n23 m) / det,
         n31 = (n21 m * n32 m - n22 m * n31 m) / det,
         n32 = (n12 m * n31 m - n11 m * n32 m) / det,
         n33 = (n11 m * n22 m - n12 m * n21 m) / det\<rparr>)"

definition applyMatrix4 :: "mat3 \<Rightarrow> vec3 \<Rightarrow> vec3" where
  "applyMatrix4 m v =
     Vector3 (n11 m * x v + n12 m * y v + n13 m * z v)
             (n21 m * x v + n22 m * y v + n23 m * z v)
             (n31 m * x v + n32 m * y v + n33 m * z v)"

subsection \<open>Narrow phase\<close>

record collision =
  collided :: bool
  normal :: vec3
  penetration :: real

definition noCollision :: collision where
  "noCollision = \<lparr>collided = False, normal = Vector3 0 0 0, penetration = 0\<rparr>"

definition isRotated :: "vec3 \<Rightarrow> bool" where
  "isRotated r \<longleftrightarrow> x r \<noteq> 0 \<or> y r \<noteq> 0 \<or> z r \<noteq> 0"

text \<open>The branch \<^verbatim>\<open>// Sphere center is inside box, find closest face\<close>.\<close>

definition closestFaceNormal :: "vec3 \<Rightarrow> real \<Rightarrow> real \<Rightarrow> real \<Rightarrow> vec3" where
  "closestFaceNormal localSpherePos halfWidth halfHeight halfDepth =
     (let dx = halfWidth - \<bar>x localSpherePos\<bar>;
          dy = halfHeight - \<bar>y localSpherePos\<bar>;
          dz = halfDepth - \<bar>z localSpherePos\<bar>
      in if dx < dy \<and> dx < dz then Vector3 (sgn (x localSpherePos)) 0 0
         else if dy < dx \<and> dy < dz then Vector3 0 (sgn (y localSpherePos)) 0
         else Vector3 0 0 (sgn (z localSpherePos)))"

text \<open>The test in the box's frame: the result before the normal is rotated back.\<close>

definition sphereBoxLocal :: "vec3 \<Rightarrow> real \<Rightarrow> real \<Rightarrow> real \<Rightarrow> real \<Rightarrow> collision" where
  "sphereBoxLocal localSpherePos sphereRadius boxWidth boxHeight boxDepth =
     (let halfWidth = boxWidth / 2;
          halfHeight = boxHeight / 2;
          halfDepth = boxDepth / 2;
          closestPoint = Vector3 (max (- halfWidth) (min halfWidth (x localSpherePos)))
                                 (max (- halfHeight) (min halfHeight (y localSpherePos)))
                                 (max (- halfDepth) (min halfDepth (z localSpherePos)));
          distance = distanceTo localSpherePos closestPoint
      in if distance < sphereRadius
         then \<lparr>collided = True,
               normal = (if distance > 0
                         then normalize (subVectors localSpherePos closestPoint)
                         else closestFaceNormal localSpherePos halfWidth halfHeight halfDepth),
               penetration = sphereRadius - distance\<rparr>
         else noCollision)"

definition checkSphereBoxCollision ::
  "vec3 \<Rightarrow> real \<Rightarrow> vec3 \<Rightarrow> vec3 \<Rightarrow> real \<Rightarrow> real \<Rightarrow> real \<Rightarrow> collision" where
  "checkSphereBoxCollision spherePos sphereRadius boxPos boxRot boxWidth boxHeight boxDepth =
     (let rotMatrix = makeRotationFromEuler boxRot;
          localSpherePos0 = subVectors spherePos boxPos;
          localSpherePos = (if isRotated boxRot
                            then applyMatrix4 (invert rotMatrix) localSpherePos0
                            else localSpherePos0);
          result = sphereBoxLocal localSpherePos sphereRadius boxWidth boxHeight boxDepth
      in if collided result \<and> isRotated boxRot
         then result\<lparr>normal := applyMatrix4 rotMatrix (normal result)\<rparr>
         else result)"

definition checkSphereSphereCollision :: "vec3 \<Rightarrow> real \<Rightarrow> vec3 \<Rightarrow> real \<Rightarrow> collision" where
  "checkSphereSphereCollision pos1 radius1 pos2 radius2 =
     (let radiusSum = radius1 + radius2;
          distance = distanceTo pos1 pos2
      in if distance < radiusSum
         then \<lparr>collided = True,
               normal = (if distance > 0 then normalize (subVectors pos1 pos2)
                         else Vector3 0 1 0),
               penetration = radiusSum - distance\<rparr>
         else noCollision)"

text \<open>The sphere-torus test in the torus's frame (the ring lies in the local XZ plane, its
  axis is the local y axis): the result before the normal is rotated back.\<close>

definition sphereTorusLocal :: "vec3 \<Rightarrow> real \<Rightarrow> real \<Rightarrow> real \<Rightarrow> collision" where
  "sphereTorusLocal localSpherePos sphereRadius torusRadius torusTube =
     (let sphereXZ = (x localSpherePos, z localSpherePos);
          distanceFromCenter = length2 sphereXZ;
          innerRadius = torusRadius - torusTube - sphereRadius
      in if distanceFromCenter < innerRadius
            \<and> \<bar>y localSpherePos\<bar> < torusTube + sphereRadius
         then noCollision
         else
           let closestPointOnCircle =
                 (if distanceFromCenter > 0
                  then multiplyScalar2 (normalize2 sphereXZ) torusRadius
                  else (0, 0));
               closestPoint0 = Vector3 (fst closestPointOnCircle) (y localSpherePos)
                                       (snd closestPointOnCircle);
               directionFromCircle = Vector3 (x localSpherePos - x closestPoint0)
                                             (y localSpherePos - y closestPoint0)
                                             (z localSpherePos - z closestPoint0);
               closestPoint =
                 (if vlength directionFromCircle > 0
                  then addVectors closestPoint0
                         (multiplyScalar (normalize directionFromCircle) torusTube)
                  else closestPoint0);
               distance = distanceTo localSpherePos closestPoint
           in if distance < sphereRadius
              then \<lparr>collided = True,
                    normal = (if distance > 0
                              then normalize (subVectors localSpherePos closestPoint)
                              else Vector3 0 1 0),
                    penetration = sphereRadius - distance\<rparr>
              else noCollision)"

definition checkSphereTorusCollision ::
  "vec3 \<Rightarrow> real \<Rightarrow> vec3 \<Rightarrow> vec3 \<Rightarrow> real \<Rightarrow> real \<Rightarrow> collision" where
  "checkSphereTorusCollision spherePos sphereRadius torusPos torusRot torusRadius torusTube =
     (let rotMatrix = makeRotationFromEuler torusRot;
          localSpherePos = applyMatrix4 (invert rotMatrix) (subVectors spherePos torusPos);
          result = sphereTorusLocal localSpherePos sphereRadius torusRadius torusTube
      in if collided result
         then result\<lparr>normal := applyMatrix4 rotMatrix (normal result)\<rparr>
         else result)"

fun checkCollision :: "transform \<Rightarrow> collider \<Rightarrow> transform \<Rightarrow> collider \<Rightarrow> collision" where
  "checkCollision transformA colliderA transformB colliderB =
     (case (ctype colliderA, ctype colliderB) of
        (Sphere r, Box w h d) \<Rightarrow>
          checkSphereBoxCollision (position transformA) r
            (position transformB) (rotation transformB) w h d
      | (Box w h d, Sphere r) \<Rightarrow>
          checkSphereBoxCollision (position transformB) r
            (position transformA) (rotation transformA) w h d
      | (Sphere r1, Sphere r2) \<Rightarrow>
          checkSphereSphereCollision (position transformA) r1 (position transformB) r2
      | (Sphere r, Torus R tube) \<Rightarrow>
          checkSphereTorusCollision (position transformA) r
            (position transformB) (rotation transformB) R tube
      | (Torus R tube, Sphere r) \<Rightarrow>
          checkSphereTorusCollision (position transformB) r
            (position transformA) (rotation transformA) R tube
      | _ \<Rightarrow> noCollision)"

subsection \<open>Boundary check and respawn\<close>

text \<open>The marble's mutable components, as the methods receive them: Transform, Physics and
  the optional Jump.\<close>

type_synonym marbleState = "transform \<times> physics \<times> jump option"

definition respawnMarble :: "marbleState \<Rightarrow> marbleState" where
  "respawnMarble s =
     (case s of (t, p, jo) \<Rightarrow>
        (t\<lparr>position := Vector3 0 MARBLE_RADIUS 0\<rparr>,
         p\<lparr>velocity := Vector3 0 0 0, isOnGround := True\<rparr>,
         map_option (\<lambda>j. j\<lparr>isJumping := False, isFalling := False, isOnSurface := True\<rparr>) jo))"

definition checkBoundaryCollisions :: "marbleState \<Rightarrow> marbleState" where
  "checkBoundaryCollisions s =
     (case s of (t, p, jo) \<Rightarrow>
        if \<bar>x (position t)\<bar> \<le> PLATFORM_SIZE \<and> \<bar>z (position t)\<bar> \<le> PLATFORM_SIZE
        then
          if y (position t) \<le> MARBLE_RADIUS + 1 / 10
          then
            if y (velocity p) \<le> 0
            then
              (t\<lparr>position := (position t)\<lparr>y := MARBLE_RADIUS\<rparr>\<rparr>,
               p\<lparr>isOnGround := True,
                 velocity := (velocity p)\<lparr>y :=
                   (if y (velocity p) < - (5 / 100)
                    then - y (velocity p) * bounceCoefficient p else 0)\<rparr>\<rparr>,
               map_option
                 (\<lambda>j. j\<lparr>isOnSurface := True, isJumping := False, isFalling := False\<rparr>) jo)
            else s
          else s
        else if y (position t) < - 20 then respawnMarble s
        else s)"

subsection \<open>Response\<close>

definition resolveCollision ::
  "marbleState \<Rightarrow> collider \<Rightarrow> surface option \<Rightarrow> physics option \<Rightarrow> collision \<Rightarrow> marbleState" where
  "resolveCollision s otherCollider otherSurface otherPhysics c =
     (case s of (t, p, jo) \<Rightarrow>
        if isTrigger otherCollider then s
        else
          let n = normal c;
              pen = penetration c;
              v = velocity p;
              relativeVelocity =
                Vector3 (x v - (case otherPhysics of Some q \<Rightarrow> x (velocity q) | None \<Rightarrow> 0))
                        (y v - (case otherPhysics of Some q \<Rightarrow> y (velocity q) | None \<Rightarrow> 0))
                        (z v - (case otherPhysics of Some q \<Rightarrow> z (velocity q) | None \<Rightarrow> 0));
              dotProduct = dot relativeVelocity n
          in if dotProduct < 0
             then
               let bounceFactor =
                     min (bounceCoefficient p)
                         (case otherSurface of Some sf \<Rightarrow> bounciness sf
                                             | None \<Rightarrow> bounceCoefficient p);
                   impulse = - (1 + bounceFactor) * dotProduct;
                   v1 = Vector3 (x v + impulse * x n) (y v + impulse * y n)
                                (z v + impulse * z n);
                   t1 = t\<lparr>position := Vector3 (x (position t) + x n * pen)
                                                (y (position t) + y n * pen)
                                                (z (position t) + z n * pen)\<rparr>
               in if y n > 1 / 10
                  then
                    let jo1 = map_option
                                (\<lambda>j. let j1 = j\<lparr>isOnSurface := True, isFalling := False\<rparr>
                                     in if y v1 \<le> 0 then j1\<lparr>isJumping := False\<rparr> else j1) jo;
                        frictionFactor = (case otherSurface of Some sf \<Rightarrow> surface.friction sf
                                                             | None \<Rightarrow> physics.friction p);
                        v2 = v1\<lparr>x := x v1 * frictionFactor, z := z v1 * frictionFactor\<rparr>;
                        v3 = (case otherSurface of
                                Some sf \<Rightarrow>
                                  if isRamp sf
                                  then v2\<lparr>z := z v2 + sin (rampAngle sf) * gravity p * slideFactor sf\<rparr>
                                  else v2
                              | None \<Rightarrow> v2)
                    in (t1, p\<lparr>velocity := v3, isOnGround := True\<rparr>, jo1)
                  else (t1, p\<lparr>velocity := v1\<rparr>, jo)
             else s)"

subsection \<open>The pass of \<^verbatim>\<open>CollisionSystem.update\<close>\<close>

text \<open>The world is the list of its entities, in the order of the \<^verbatim>\<open>Map\<close> that holds
  them. \<^verbatim>\<open>getEntities\<close> of the collision system selects those with Transform and
  Collider; the marbles also carry MarbleTag and Physics.\<close>

definition getEntities :: "entity list \<Rightarrow> entity list" where
  "getEntities world = filter (\<lambda>e. Transform e \<noteq> None \<and> Collider e \<noteq> None) world"

definition isMarble :: "entity \<Rightarrow> bool" where
  "isMarble e \<longleftrightarrow>
     MarbleTag e \<and> Transform e \<noteq> None \<and> Collider e \<noteq> None \<and> Physics e \<noteq> None"

text \<open>The body of the inner loop, for one entity tested against the marble.\<close>

definition collideWith :: "nat \<Rightarrow> collider \<Rightarrow> entity \<Rightarrow> marbleState \<Rightarrow> marbleState" where
  "collideWith marbleId marbleCollider e s =
     (if entityId e = marbleId then s
      else
        case (Transform e, Collider e) of
          (Some entityTransform, Some entityCollider) \<Rightarrow>
            let c = checkCollision (fst s) marbleCollider entityTransform entityCollider
            in if collided c
               then resolveCollision s entityCollider (Surface e) (Physics e) c
               else s
        | _ \<Rightarrow> s)"

fun collideAll :: "nat \<Rightarrow> collider \<Rightarrow> entity list \<Rightarrow> marbleState \<Rightarrow> marbleState" where
  "collideAll marbleId marbleCollider [] s = s"
| "collideAll marbleId marbleCollider (e # es) s =
     collideAll marbleId marbleCollider es (collideWith marbleId marbleCollider e s)"

text \<open>The start of the outer loop body: the flags are reset, then the boundary check runs.\<close>

definition resetAndCheckBoundary :: "marbleState \<Rightarrow> marbleState" where
  "resetAndCheckBoundary s =
     (case s of (t, p, jo) \<Rightarrow>
        checkBoundaryCollisions
          (t, p\<lparr>isOnGround := False\<rparr>, map_option (\<lambda>j. j\<lparr>isOnSurface := False\<rparr>) jo))"

text \<open>The body of the outer loop for one marble.\<close>

definition marblePass :: "entity list \<Rightarrow> entity \<Rightarrow> entity" where
  "marblePass world marble =
     (case (Transform marble, Collider marble, Physics marble) of
        (Some t, Some c, Some p) \<Rightarrow>
          (case collideAll (entityId marble) c (getEntities world)
                  (resetAndCheckBoundary (t, p, Jump marble)) of
             (t', p', jo') \<Rightarrow> marble\<lparr>Transform := Some t', Physics := Some p', Jump := jo'\<rparr>)
      | _ \<Rightarrow> marble)"

text \<open>The pass as one entity sees it: a marble is updated against the world, any other
  entity is left alone.\<close>

definition collisionEntity :: "entity list \<Rightarrow> entity \<Rightarrow> entity" where
  "collisionEntity world e = (if isMarble e then marblePass world e else e)"

text \<open>The whole pass: the marbles are visited in order, and each one sees the world as the
  earlier marbles left it.\<close>

definition collisionUpdate :: "entity list \<Rightarrow> entity list" where
  "collisionUpdate world =
     foldl (\<lambda>w i. w[i := collisionEntity w (w ! i)]) world [0..<length world]"

section \<open>Input (\<^verbatim>\<open>components/PlayerControl.js\<close>, \<^verbatim>\<open>systems/InputSystem.ts\<close>)\<close>

text \<open>\<open>keys\<close> is the key-state table of the input manager; a key that was never pressed
  is not down.\<close>

definition setMoveDirection :: "(string \<Rightarrow> bool) \<Rightarrow> real \<Rightarrow> vec2" where
  "setMoveDirection keys cameraAngle =
     (let usingArrowsForCamera =
            ((keys ''ArrowLeft'' \<or> keys ''ArrowRight'')
             \<and> \<not> (keys ''w'' \<or> keys ''s'' \<or> keys ''ArrowUp'' \<or> keys ''ArrowDown''));
          dz = (if keys ''w'' \<or> keys ''ArrowUp'' then - 1
                else if keys ''s'' \<or> keys ''ArrowDown'' then 1 else 0);
          dx = (if keys ''a'' \<or> (keys ''ArrowLeft'' \<and> \<not> usingArrowsForCamera) then - 1
                else if keys ''d'' \<or> (keys ''ArrowRight'' \<and> \<not> usingArrowsForCamera) then 1
                else 0);
          len = sqrt (dx ^ 2 + dz ^ 2);
          nx = (if len > 0 then dx / len else dx);
          nz = (if len > 0 then dz / len else dz)
      in if len > 0 \<and> cameraAngle \<noteq> 0
         then (nx * cos cameraAngle + nz * sin cameraAngle,
               nz * cos cameraAngle - nx * sin cameraAngle)
         else (nx, nz))"

text \<open>The body of the loop of \<^verbatim>\<open>InputSystem.update\<close>; \<open>cameraAngle\<close> is the angle of the
  entity's camera, 0 without one.\<close>

definition inputEntity :: "(string \<Rightarrow> bool) \<Rightarrow> real \<Rightarrow> entity \<Rightarrow> entity" where
  "inputEntity keys cameraAngle e =
     (case PlayerControl e of
        Some pc \<Rightarrow>
          e\<lparr>PlayerControl := Some (pc\<lparr>moveDirection := setMoveDirection keys cameraAngle\<rparr>),
            Jump := (if keys '' '' then map_option requestJump (Jump e) else Jump e)\<rparr>
      | None \<Rightarrow> e)"

text \<open>The key table with only the space key down.\<close>

definition spaceKey :: "string \<Rightarrow> bool" where
  "spaceKey k = (k = '' '')"

section \<open>Reachable states of one entity\<close>

text \<open>Any interleaving of the four passes, each with arbitrary inputs (keys and camera
  angle, elapsed time, the world the marble is tested against).\<close>

inductive reachable :: "entity \<Rightarrow> entity \<Rightarrow> bool" for e0 :: entity where
  start: "reachable e0 e0"
| input: "reachable e0 e \<Longrightarrow> reachable e0 (inputEntity keys cameraAngle e)"
| jumpPass: "reachable e0 e \<Longrightarrow> reachable e0 (jumpEntity deltaTime e)"
| physicsPass: "reachable e0 e \<Longrightarrow> reachable e0 (physicsEntity deltaTime e)"
| collisionPass: "reachable e0 e \<Longrightarrow> reachable e0 (collisionEntity world e)"

text \<open>The order in which the game loop runs them every tick: input, jump transition,
  integrator, collision (\<^verbatim>\<open>world.addSystem\<close> in the main module). The phase records
  which pass ran last; the initial state stands at a tick boundary.\<close>

datatype phase = AfterInput | AfterJump | AfterPhysics | AfterCollision

inductive tickReachable :: "entity \<Rightarrow> phase \<Rightarrow> entity \<Rightarrow> bool" for e0 :: entity where
  tickStart: "tickReachable e0 AfterCollision e0"
| tickInput: "tickReachable e0 AfterCollision e
     \<Longrightarrow> tickReachable e0 AfterInput (inputEntity keys cameraAngle e)"
| tickJump: "tickReachable e0 AfterInput e
     \<Longrightarrow> tickReachable e0 AfterJump (jumpEntity deltaTime e)"
| tickPhysics: "tickReachable e0 AfterJump e
     \<Longrightarrow> tickReachable e0 AfterPhysics (physicsEntity deltaTime e)"
| tickCollision: "tickReachable e0 AfterPhysics e
     \<Longrightarrow> tickReachable e0 AfterCollision (collisionEntity world e)"

text \<open>The integrator moves an entity only if it has Transform and Physics and is not
  static.\<close>

definition integrated :: "entity \<Rightarrow> bool" where
  "integrated e \<longleftrightarrow>
     (case (Transform e, Physics e) of (Some t, Some p) \<Rightarrow> \<not> isStatic p | _ \<Rightarrow> False)"

text \<open>What holds of the jump flags after each pass of a tick.\<close>

definition jumpInv :: "phase \<Rightarrow> entity \<Rightarrow> bool" where
  "jumpInv ph e \<longleftrightarrow>
     (case Jump e of
        None \<Rightarrow> True
      | Some j \<Rightarrow>
          \<not> (isJumping j \<and> isFalling j)
          \<and> (\<not> integrated e \<longrightarrow> \<not> isJumping j)
          \<and> (integrated e \<and> jumpRequested j \<longrightarrow>
               (case ph of
                  AfterCollision \<Rightarrow> isOnSurface j
                | AfterInput \<Rightarrow> isOnSurface j
                | AfterJump \<Rightarrow> isOnSurface j \<and> \<not> isJumping j \<and> \<not> isFalling j
                | AfterPhysics \<Rightarrow> False)))"

section \<open>Concrete scenarios\<close>

text \<open>A marble as the factory builds it, resting on the platform, with a jump request
  latched.\<close>

definition marbleReadyToJump :: entity where
  "marbleReadyToJump =
     (createMarble 1 (Vector3 0 MARBLE_RADIUS 0))
       \<lparr>Jump := Some ((newJump JUMP_POWER)\<lparr>jumpRequested := True\<rparr>)\<rparr>"

text \<open>The same marble on the ground with the player steering to the right; the same marble
  rolling with no key pressed; a jump component whose request is still latched although the
  object is off the surface and the cooldown runs.\<close>

definition marblePushedRight :: entity where
  "marblePushedRight =
     (createMarble 1 (Vector3 0 MARBLE_RADIUS 0))
       \<lparr>Physics := Some ((newPhysics 1 GRAVITY)\<lparr>isOnGround := True\<rparr>),
        PlayerControl := Some ((newPlayerControl MARBLE_SPEED)\<lparr>moveDirection := (1, 0)\<rparr>)\<rparr>"

definition marbleRolling :: entity where
  "marbleRolling =
     (createMarble 1 (Vector3 0 MARBLE_RADIUS 0))
       \<lparr>Physics := Some ((newPhysics 1 GRAVITY)\<lparr>isOnGround := True, velocity := Vector3 3 0 4\<rparr>)\<rparr>"

definition jumpLatchedInAir :: jump where
  "jumpLatchedInAir =
     (newJump JUMP_POWER)\<lparr>jumpRequested := True, isOnSurface := False, jumpCooldown := 1 / 10\<rparr>"


definition marbleInAir :: entity where
  "marbleInAir = createMarble 1 (Vector3 0 10 0)"

definition staticSphere :: entity where
  "staticSphere =
     \<lparr>entityId = 2, Transform = Some (newTransform (Vector3 1 5 0)),
      Physics = Some ((newPhysics 0 0)\<lparr>isStatic := True\<rparr>),
      Collider = Some (newCollider (Sphere MARBLE_RADIUS)),
      Surface = Some (newSurface (7 / 10)), Jump = None, PlayerControl = None,
      MarbleTag = False\<rparr>"

definition marbleTowardsSphere :: entity where
  "marbleTowardsSphere =
     (createMarble 1 (Vector3 0 5 0))
       \<lparr>Physics := Some ((newPhysics 1 GRAVITY)\<lparr>velocity := Vector3 1 0 0\<rparr>)\<rparr>"

definition staticMarble :: entity where
  "staticMarble =
     (createMarble 1 (Vector3 0 (1 / 2) 0))
       \<lparr>Physics := Some ((newPhysics 1 GRAVITY)\<lparr>isStatic := True\<rparr>)\<rparr>"

text \<open>The marble in mid-air once the input pass has seen the space key down; the same after
  the jump transition pass and the integrator of that tick.\<close>

definition marbleRequested :: entity where
  "marbleRequested = inputEntity spaceKey 0 marbleInAir"

definition marbleLaunched :: entity where
  "marbleLaunched = physicsEntity (16 / 1000) (jumpEntity (16 / 1000) marbleRequested)"

text \<open>Out of the tick order: after the input pass the collision pass runs first, then the
  jump transition pass and the integrator.\<close>

definition marbleBothFlags :: entity where
  "marbleBothFlags =
     physicsEntity (16 / 1000)
       (jumpEntity (16 / 1000) (collisionEntity [marbleRequested] marbleRequested))"


definition marbleLatchedInAir :: entity where
  "marbleLatchedInAir = (createMarble 1 (Vector3 0 5 0))\<lparr>Jump := Some jumpLatchedInAir\<rparr>"

subsection \<open>Entities at rest\<close>


subsection \<open>An order on jump states\<close>

text \<open>\<open>calmer j j'\<close>: from \<open>j\<close> to \<open>j'\<close> neither \<open>isJumping\<close> nor \<open>isFalling\<close> was switched
  on, and the request latch is as it was.\<close>

definition calmer :: "jump \<Rightarrow> jump \<Rightarrow> bool" where
  "calmer j j' \<longleftrightarrow>
     (isJumping j' \<longrightarrow> isJumping j) \<and> (isFalling j' \<longrightarrow> isFalling j)
     \<and> jumpRequested j' = jumpRequested j"

section \<open>Proof tools\<close>

lemmas vec_defs = Vector3_def vlength_def subVectors_def distanceTo_def dot_def
  multiplyScalar_def addVectors_def normalize_def length2_def multiplyScalar2_def normalize2_def

lemmas const_defs = GRAVITY_def MARBLE_SPEED_def JUMP_POWER_def AIR_CONTROL_FACTOR_def
  GROUND_FRICTION_def AIR_FRICTION_def BOUNCE_COEFFICIENT_def MARBLE_RADIUS_def PLATFORM_SIZE_def

lemmas new_defs = newTransform_def newPhysics_def newJump_def newPlayerControl_def
  newCollider_def newSurface_def createMarble_def

lemmas physics_defs = physicsEntity_def savePreviousPosition_def processPlayerMovement_def
  integratePosition_def applyFriction_def

section \<open>The jump component and the integrator\<close>

text \<open>What \<^verbatim>\<open>processJumping\<close> does with a latched request, whatever the other flags are.\<close>

lemma processJumping_requested:
  assumes "jumpRequested j"
  shows "processJumping (t, p, j) dt =
     (t\<lparr>position := (position t)\<lparr>y := y (position t) + 5 / 100\<rparr>\<rparr>,
      p\<lparr>velocity := (velocity p)\<lparr>y := jumpPower j - gravity p\<rparr>\<rparr>,
      j\<lparr>isJumping := (gravity p \<le> jumpPower j),
        isFalling := (isFalling j \<or> jumpPower j < gravity p),
        isOnSurface := False, jumpRequested := False,
        jumpCooldown := jumpCooldownTime j\<rparr>)"
  using assms
  by (auto simp add: processJumping_def jumpApex_def jumpGravity_def jumpLaunch_def
      executeJumpIfRequested_def updateCooldown_def)

lemma processJumping_physics_frame:
  assumes "processJumping (t, p, j) dt = (t', p', j')"
  shows "x (velocity p') = x (velocity p) \<and> z (velocity p') = z (velocity p)
     \<and> isOnGround p' = isOnGround p \<and> physics.friction p' = physics.friction p
     \<and> airFriction p' = airFriction p \<and> isStatic p' = isStatic p"
  using assms
  by (auto simp add: processJumping_def jumpApex_def jumpGravity_def jumpLaunch_def
      executeJumpIfRequested_def split: if_splits)

lemma processJumping_friction_irrelevant:
  "processJumping (t, p\<lparr>physics.friction := f, airFriction := g\<rparr>, j) dt =
     (case processJumping (t, p, j) dt of
        (t', p', j') \<Rightarrow> (t', p'\<lparr>physics.friction := f, airFriction := g\<rparr>, j'))"
  by (auto simp add: processJumping_def jumpApex_def jumpGravity_def jumpLaunch_def
      executeJumpIfRequested_def)

text \<open>The update agrees with the floored decrement exactly when it does not overshoot and
  the cooldown was not negative to begin with.\<close>

lemma updateCooldown_floor_iff:
  assumes "0 \<le> dt"
  shows "jumpCooldown (updateCooldown j dt) = max 0 (jumpCooldown j - dt)
           \<longleftrightarrow> jumpCooldown j = 0 \<or> dt \<le> jumpCooldown j"
  using assms by (auto simp add: updateCooldown_def max_def)

text \<open>
  C6. The claim: one cooldown update leaves \<open>jumpCooldown = max 0 (old - dt)\<close>, never
  negative. \<^verbatim>\<open>Jump.js\<close> subtracts without a floor: from a cooldown of 0.02 an update by
  0.05 leaves -0.03 (the last step of the unit test \<^verbatim>\<open>should update cooldown\<close>, which
  expects 0, and which \<^verbatim>\<open>Jump.ts\<close> meets with \<^verbatim>\<open>Math.max(0, ...)\<close>).
\<close>

theorem updateCooldown_past_zero:
  "jumpCooldown (updateCooldown ((newJump JUMP_POWER)\<lparr>jumpCooldown := 2 / 100\<rparr>) (5 / 100))
     = - (3 / 100)"
  by (simp add: updateCooldown_def newJump_def)

text \<open>
  C1, as stated, fails: for the factory's marble with a request latched, the velocity at
  the end of the integrator's pass is not \<open>jumpPower\<close> (0.4) but 0.385, because the pass
  subtracts gravity right after the launch.
\<close>

theorem jump_launch_velocity_counterexample:
  "isOnSurface (the (Jump marbleReadyToJump))
   \<and> \<not> isJumping (the (Jump marbleReadyToJump))
   \<and> jumpCooldown (the (Jump marbleReadyToJump)) \<le> 0
   \<and> jumpRequested (the (Jump marbleReadyToJump))
   \<and> y (velocity (the (Physics (physicsEntity (16 / 1000) marbleReadyToJump))))
       \<noteq> jumpPower (the (Jump marbleReadyToJump))"
  by (simp add: marbleReadyToJump_def physics_defs processJumping_requested new_defs const_defs
      Vector3_def)

text \<open>
  C1, amended. For a non-static object with Transform, Physics and a JumpState with
  \<open>isOnSurface\<close>, not \<open>isJumping\<close>, \<open>jumpCooldown \<le> 0\<close> and a pending request, one pass of
  the integrator ends with \<open>isOnSurface = False\<close>, the request cleared, the cooldown
  restarted and \<open>velocity.y = jumpPower - gravity\<close>; \<open>isJumping\<close> is true at the end
  exactly when \<open>gravity \<le> jumpPower\<close>, otherwise the apex check of the same pass has
  already turned the jump into a fall.
\<close>

theorem jump_launch_one_pass:
  assumes "Transform e = Some t" and "Physics e = Some p" and "Jump e = Some j"
    and "\<not> isStatic p"
    and "isOnSurface j" and "\<not> isJumping j" and "jumpCooldown j \<le> 0" and "jumpRequested j"
  shows "Jump (physicsEntity dt e) =
           Some (j\<lparr>isJumping := (gravity p \<le> jumpPower j),
                   isFalling := (isFalling j \<or> jumpPower j < gravity p),
                   isOnSurface := False, jumpRequested := False,
                   jumpCooldown := jumpCooldownTime j\<rparr>)
         \<and> y (velocity (the (Physics (physicsEntity dt e)))) = jumpPower j - gravity p"
proof -
  obtain p1 where p1:
    "p1 = (case PlayerControl e of Some pc \<Rightarrow> processPlayerMovement p pc | None \<Rightarrow> p)"
    by simp
  have g: "gravity p1 = gravity p"
    using p1 by (auto simp add: processPlayerMovement_def Let_def split: option.splits)
  show ?thesis
    using assms p1 g
    by (simp add: physicsEntity_def Let_def processJumping_requested applyFriction_def)
qed

theorem jump_launch_one_pass_witness:
  "Jump (physicsEntity (16 / 1000) marbleReadyToJump) =
     Some ((newJump JUMP_POWER)\<lparr>isJumping := True, jumpCooldown := 2 / 10, isOnSurface := False\<rparr>)
   \<and> y (velocity (the (Physics (physicsEntity (16 / 1000) marbleReadyToJump)))) = 385 / 1000"
  using jump_launch_one_pass [of marbleReadyToJump
      "newTransform (Vector3 0 MARBLE_RADIUS 0)" "newPhysics 1 GRAVITY"
      "(newJump JUMP_POWER)\<lparr>jumpRequested := True\<rparr>" "16 / 1000"]
  by (simp add: marbleReadyToJump_def new_defs const_defs)

section \<open>Friction\<close>

lemma abs_le_vlength:
  "\<bar>x v\<bar> \<le> vlength v" "\<bar>z v\<bar> \<le> vlength v"
proof -
  have "\<bar>x v\<bar> = sqrt (x v * x v)" by simp
  also have "\<dots> \<le> sqrt (x v * x v + y v * y v + z v * z v)"
    by (rule real_sqrt_le_mono) simp
  finally show "\<bar>x v\<bar> \<le> vlength v" by (simp add: vlength_def)
  have "\<bar>z v\<bar> = sqrt (z v * z v)" by simp
  also have "\<dots> \<le> sqrt (x v * x v + y v * y v + z v * z v)"
    by (rule real_sqrt_le_mono) simp
  finally show "\<bar>z v\<bar> \<le> vlength v" by (simp add: vlength_def)
qed

lemma abs_mult_le:
  fixes a f :: real
  assumes "0 < f" "f \<le> 1"
  shows "\<bar>a * f\<bar> \<le> \<bar>a\<bar>"
proof -
  have "\<bar>a * f\<bar> = \<bar>a\<bar> * f" using assms by (simp add: abs_mult)
  also have "\<dots> \<le> \<bar>a\<bar> * 1" using assms by (intro mult_left_mono) simp_all
  finally show ?thesis by simp
qed

lemma physicsEntity_velocity_xz:
  assumes "Transform e = Some t" "Physics e = Some p" "\<not> isStatic p"
  shows "\<exists>p'. Physics (physicsEntity dt e) = Some p'
     \<and> x (velocity p') =
         (x (velocity p) + (case PlayerControl e of None \<Rightarrow> 0
            | Some pc \<Rightarrow> fst (moveDirection pc) * (if isOnGround p then speed pc else speed pc * airControlFactor pc)))
         * (if isOnGround p then physics.friction p else airFriction p)
     \<and> z (velocity p') =
         (z (velocity p) + (case PlayerControl e of None \<Rightarrow> 0
            | Some pc \<Rightarrow> snd (moveDirection pc) * (if isOnGround p then speed pc else speed pc * airControlFactor pc)))
         * (if isOnGround p then physics.friction p else airFriction p)"
proof (cases "Jump e")
  case None
  then show ?thesis using assms
    by (auto simp add: physics_defs Let_def split: option.splits)
next
  case (Some j)
  obtain p1 where p1: "p1 = (case PlayerControl e of Some pc \<Rightarrow> processPlayerMovement p pc | None \<Rightarrow> p)" by simp
  obtain t' p' j' where pj: "processJumping (savePreviousPosition t, p1, j) dt = (t', p', j')"
    by (metis prod_cases3)
  note fr = processJumping_physics_frame[OF pj]
  have "Physics (physicsEntity dt e) = Some (applyFriction p')"
    using assms Some pj p1 by (simp add: physicsEntity_def Let_def)
  moreover have "isOnGround p1 = isOnGround p" "physics.friction p1 = physics.friction p"
     "airFriction p1 = airFriction p"
    using p1 by (auto simp add: processPlayerMovement_def Let_def split: option.splits)
  ultimately show ?thesis using fr p1
    by (auto simp add: applyFriction_def processPlayerMovement_def Let_def split: option.splits)
qed

lemma physicsEntity_velocity_y_friction:
  assumes "Physics e = Some p"
  shows "y (velocity (the (Physics (physicsEntity dt
            (e\<lparr>Physics := Some (p\<lparr>physics.friction := f, airFriction := g\<rparr>)\<rparr>))))) =
         y (velocity (the (Physics (physicsEntity dt e))))"
proof (cases "Transform e")
  case None
  then show ?thesis using assms by (simp add: physicsEntity_def)
next
  case (Some t)
  show ?thesis
  proof (cases "Jump e")
    case None
    then show ?thesis using assms Some
      by (auto simp add: physics_defs Let_def split: option.splits)
  next
    case j: (Some j)
    obtain p1 where p1: "p1 = (case PlayerControl e of Some pc \<Rightarrow> processPlayerMovement p pc | None \<Rightarrow> p)" by simp
    have p1': "(case PlayerControl e of Some pc \<Rightarrow> processPlayerMovement (p\<lparr>physics.friction := f, airFriction := g\<rparr>) pc
                  | None \<Rightarrow> p\<lparr>physics.friction := f, airFriction := g\<rparr>) = p1\<lparr>physics.friction := f, airFriction := g\<rparr>"
      using p1 by (auto simp add: processPlayerMovement_def Let_def split: option.splits)
    obtain t' p' j' where pj: "processJumping (savePreviousPosition t, p1, j) dt = (t', p', j')"
      by (metis prod_cases3)
    show ?thesis using assms Some j p1 p1' pj
      by (simp add: physicsEntity_def Let_def processJumping_friction_irrelevant applyFriction_def)
  qed
qed

lemma physicsEntity_skips:
  "Transform e = None \<or> Physics e = None \<or> (\<exists>p. Physics e = Some p \<and> isStatic p)
     \<Longrightarrow> physicsEntity dt e = e"
  by (auto simp add: physicsEntity_def split: option.splits)

text \<open>
  C8, as stated, fails for an object with a PlayerControl and a nonzero move direction: the
  integrator first adds \<open>direction * speed\<close> to the velocity and friction then scales the
  sum. The factory's marble at rest on the ground, steered to the right, has speed 0 before
  the tick and \<open>velocity.x = 0.005 * 0.97\<close> after it.
\<close>

theorem friction_bound_counterexample:
  "isOnGround (the (Physics marblePushedRight))
   \<and> 0 < physics.friction (the (Physics marblePushedRight))
   \<and> physics.friction (the (Physics marblePushedRight)) \<le> 1
   \<and> \<not> \<bar>x (velocity (the (Physics (physicsEntity (16 / 1000) marblePushedRight))))\<bar>
         \<le> vlength (velocity (the (Physics marblePushedRight)))"
  by (simp add: marblePushedRight_def physics_defs processJumping_def jumpApex_def
      jumpGravity_def jumpLaunch_def executeJumpIfRequested_def updateCooldown_def
      new_defs const_defs vec_defs)

text \<open>
  C8, amended. For every object with \<open>isOnGround\<close> at the start of an integrator tick,
  ground friction in (0,1] and no movement intent (no PlayerControl, or a zero move
  direction), \<open>|velocity.x|\<close> and \<open>|velocity.z|\<close> after the tick are at most the velocity
  magnitude before it; and the resulting \<open>velocity.y\<close> is the same whatever the two friction
  coefficients are.
\<close>

theorem friction_bound:
  assumes "Physics e = Some p" and "isOnGround p"
    and "0 < physics.friction p" and "physics.friction p \<le> 1"
    and "\<forall>pc. PlayerControl e = Some pc \<longrightarrow> moveDirection pc = (0, 0)"
  shows "\<bar>x (velocity (the (Physics (physicsEntity dt e))))\<bar> \<le> vlength (velocity p)
       \<and> \<bar>z (velocity (the (Physics (physicsEntity dt e))))\<bar> \<le> vlength (velocity p)
       \<and> (\<forall>f g. y (velocity (the (Physics (physicsEntity dt
                     (e\<lparr>Physics := Some (p\<lparr>physics.friction := f, airFriction := g\<rparr>)\<rparr>)))))
                 = y (velocity (the (Physics (physicsEntity dt e)))))"
proof -
  have xz: "\<bar>x (velocity (the (Physics (physicsEntity dt e))))\<bar> \<le> \<bar>x (velocity p)\<bar>
          \<and> \<bar>z (velocity (the (Physics (physicsEntity dt e))))\<bar> \<le> \<bar>z (velocity p)\<bar>"
  proof (cases "Transform e = None \<or> isStatic p")
    case True
    then have "physicsEntity dt e = e" using assms(1) by (auto intro: physicsEntity_skips)
    then show ?thesis using assms(1) by simp
  next
    case False
    then obtain t where t: "Transform e = Some t" and ns: "\<not> isStatic p" by auto
    have zero: "(case PlayerControl e of None \<Rightarrow> 0
            | Some pc \<Rightarrow> fst (moveDirection pc) * (if isOnGround p then speed pc else speed pc * airControlFactor pc)) = 0"
       "(case PlayerControl e of None \<Rightarrow> 0
            | Some pc \<Rightarrow> snd (moveDirection pc) * (if isOnGround p then speed pc else speed pc * airControlFactor pc)) = 0"
      using assms(5) by (auto split: option.splits)
    from physicsEntity_velocity_xz[OF t assms(1) ns, of dt] zero assms(2)
    obtain p' where "Physics (physicsEntity dt e) = Some p'"
      "x (velocity p') = x (velocity p) * physics.friction p"
      "z (velocity p') = z (velocity p) * physics.friction p"
      by auto
    then show ?thesis using abs_mult_le[OF assms(3,4)] by simp
  qed
  have "\<bar>x (velocity p)\<bar> \<le> vlength (velocity p)" "\<bar>z (velocity p)\<bar> \<le> vlength (velocity p)"
    by (rule abs_le_vlength)+
  then show ?thesis using xz physicsEntity_velocity_y_friction[OF assms(1)]
    by (intro conjI allI) linarith+
qed

theorem friction_bound_witness:
  "\<bar>x (velocity (the (Physics (physicsEntity (16 / 1000) marbleRolling))))\<bar>
      \<le> vlength (velocity (the (Physics marbleRolling)))
   \<and> \<bar>z (velocity (the (Physics (physicsEntity (16 / 1000) marbleRolling))))\<bar>
      \<le> vlength (velocity (the (Physics marbleRolling)))"
proof -
  have h1: "Physics marbleRolling = Some (the (Physics marbleRolling))"
    by (simp add: marbleRolling_def)
  have h2: "isOnGround (the (Physics marbleRolling))"
    by (simp add: marbleRolling_def)
  have h3: "0 < physics.friction (the (Physics marbleRolling))"
    by (simp add: marbleRolling_def new_defs const_defs)
  have h4: "physics.friction (the (Physics marbleRolling)) \<le> 1"
    by (simp add: marbleRolling_def new_defs const_defs)
  have h5: "\<forall>pc. PlayerControl marbleRolling = Some pc \<longrightarrow> moveDirection pc = (0, 0)"
    by (simp add: marbleRolling_def new_defs)
  from friction_bound [OF h1 h2 h3 h4 h5, of "16 / 1000"] show ?thesis by blast
qed

section \<open>The jump latch\<close>

text \<open>The whole pass of the integrator over a non-static entity whose request is latched.\<close>

lemma physicsEntity_requested:
  assumes "Transform e = Some t" and "Physics e = Some p" and "Jump e = Some j"
    and "\<not> isStatic p" and "jumpRequested j"
  shows "Jump (physicsEntity dt e) =
           Some (j\<lparr>isJumping := (gravity p \<le> jumpPower j),
                   isFalling := (isFalling j \<or> jumpPower j < gravity p),
                   isOnSurface := False, jumpRequested := False,
                   jumpCooldown := jumpCooldownTime j\<rparr>)"
    and "y (velocity (the (Physics (physicsEntity dt e)))) = jumpPower j - gravity p"
    and "y (position (the (Transform (physicsEntity dt e))))
           = y (position t) + 5 / 100 + (jumpPower j - gravity p)"
    and "previousPosition (the (Transform (physicsEntity dt e))) = position t"
proof -
  obtain p1 where p1:
    "p1 = (case PlayerControl e of Some pc \<Rightarrow> processPlayerMovement p pc | None \<Rightarrow> p)"
    by simp
  have g: "gravity p1 = gravity p"
    using p1 by (auto simp add: processPlayerMovement_def Let_def split: option.splits)
  show "Jump (physicsEntity dt e) =
           Some (j\<lparr>isJumping := (gravity p \<le> jumpPower j),
                   isFalling := (isFalling j \<or> jumpPower j < gravity p),
                   isOnSurface := False, jumpRequested := False,
                   jumpCooldown := jumpCooldownTime j\<rparr>)"
    using assms p1 g
    by (simp add: physicsEntity_def Let_def processJumping_requested applyFriction_def)
  show "y (velocity (the (Physics (physicsEntity dt e)))) = jumpPower j - gravity p"
    using assms p1 g
    by (simp add: physicsEntity_def Let_def processJumping_requested applyFriction_def)
  show "y (position (the (Transform (physicsEntity dt e))))
           = y (position t) + 5 / 100 + (jumpPower j - gravity p)"
    using assms p1 g
    by (simp add: physicsEntity_def Let_def processJumping_requested integratePosition_def
        savePreviousPosition_def Vector3_def)
  show "previousPosition (the (Transform (physicsEntity dt e))) = position t"
    using assms p1 g
    by (simp add: physicsEntity_def Let_def processJumping_requested integratePosition_def
        savePreviousPosition_def Vector3_def)
qed

text \<open>
  C10. The guard (\<open>canJump\<close>, \<open>isOnSurface\<close>, not \<open>isJumping\<close>, \<open>jumpCooldown \<le> 0\<close>) is
  evaluated only when the request is latched by \<open>requestJump\<close>. Once \<open>jumpRequested\<close> is
  true, the next integrator call over the object (the integrator visits every non-static
  entity with Transform and Physics) executes the launch whatever \<open>isOnSurface\<close>,
  \<open>isJumping\<close>, \<open>canJump\<close> and \<open>jumpCooldown\<close> have become: the launch block sets
  \<open>isJumping = True\<close>, \<open>isOnSurface = False\<close> and \<open>velocity.y = jumpPower\<close>, and at the end
  of the call the request is consumed, \<open>isOnSurface\<close> is false, the cooldown is restarted,
  the position has been nudged by 0.05 and moved by the new velocity, which is \<open>jumpPower\<close>
  less the gravity of the same call; \<open>isJumping\<close> is still set unless that velocity is
  negative.
\<close>

theorem launch_unconditional_once_requested:
  assumes "i < length world"
    and "Transform (world ! i) = Some t" and "Physics (world ! i) = Some p"
    and "Jump (world ! i) = Some j"
    and "\<not> isStatic p" and "jumpRequested j"
  shows "(jumpRequested (requestJump j0) \<longleftrightarrow>
            jumpRequested j0
            \<or> (canJump j0 \<and> isOnSurface j0 \<and> \<not> isJumping j0 \<and> jumpCooldown j0 \<le> 0))
       \<and> jumpLaunch (t0, p0, updateCooldown j dt) =
           (t0\<lparr>position := (position t0)\<lparr>y := y (position t0) + 5 / 100\<rparr>\<rparr>,
            p0\<lparr>velocity := (velocity p0)\<lparr>y := jumpPower j\<rparr>\<rparr>,
            j\<lparr>isJumping := True, isOnSurface := False, jumpRequested := False,
              jumpCooldown := jumpCooldownTime j\<rparr>)
       \<and> Jump (physicsUpdate dt world ! i) =
           Some (j\<lparr>isJumping := (gravity p \<le> jumpPower j),
                   isFalling := (isFalling j \<or> jumpPower j < gravity p),
                   isOnSurface := False, jumpRequested := False,
                   jumpCooldown := jumpCooldownTime j\<rparr>)
       \<and> y (velocity (the (Physics (physicsUpdate dt world ! i)))) = jumpPower j - gravity p
       \<and> y (position (the (Transform (physicsUpdate dt world ! i))))
           = y (position t) + 5 / 100 + (jumpPower j - gravity p)"
proof -
  have launch: "jumpLaunch (t0, p0, updateCooldown j dt) =
           (t0\<lparr>position := (position t0)\<lparr>y := y (position t0) + 5 / 100\<rparr>\<rparr>,
            p0\<lparr>velocity := (velocity p0)\<lparr>y := jumpPower j\<rparr>\<rparr>,
            j\<lparr>isJumping := True, isOnSurface := False, jumpRequested := False,
              jumpCooldown := jumpCooldownTime j\<rparr>)"
    using assms(6) by (simp add: jumpLaunch_def executeJumpIfRequested_def updateCooldown_def)
  have req: "jumpRequested (requestJump j0) \<longleftrightarrow>
            jumpRequested j0
            \<or> (canJump j0 \<and> isOnSurface j0 \<and> \<not> isJumping j0 \<and> jumpCooldown j0 \<le> 0)"
    by (auto simp add: requestJump_def)
  have nth: "physicsUpdate dt world ! i = physicsEntity dt (world ! i)"
    using assms(1) by (simp add: physicsUpdate_def)
  show ?thesis
    unfolding nth
    using launch req physicsEntity_requested(1-3)[OF assms(2-6), of dt]
    by (intro conjI) assumption+
qed

theorem launch_unconditional_once_requested_witness:
  "\<not> isOnSurface jumpLatchedInAir \<and> 0 < jumpCooldown jumpLatchedInAir
   \<and> Jump (physicsUpdate (16 / 1000) [marbleLatchedInAir] ! 0) =
       Some ((newJump JUMP_POWER)\<lparr>isJumping := True, isOnSurface := False,
               jumpCooldown := 2 / 10\<rparr>)
   \<and> y (velocity (the (Physics (physicsUpdate (16 / 1000) [marbleLatchedInAir] ! 0))))
       = 385 / 1000
   \<and> y (position (the (Transform (physicsUpdate (16 / 1000) [marbleLatchedInAir] ! 0))))
       = 5435 / 1000"
proof -
  have h1: "0 < length [marbleLatchedInAir]" by simp
  have h2: "Transform ([marbleLatchedInAir] ! 0) = Some (newTransform (Vector3 0 5 0))"
    by (simp add: marbleLatchedInAir_def createMarble_def)
  have h3: "Physics ([marbleLatchedInAir] ! 0) = Some (newPhysics 1 GRAVITY)"
    by (simp add: marbleLatchedInAir_def createMarble_def)
  have h4: "Jump ([marbleLatchedInAir] ! 0) = Some jumpLatchedInAir"
    by (simp add: marbleLatchedInAir_def createMarble_def)
  have h5: "\<not> isStatic (newPhysics 1 GRAVITY)" by (simp add: newPhysics_def)
  have h6: "jumpRequested jumpLatchedInAir" by (simp add: jumpLatchedInAir_def)
  from launch_unconditional_once_requested [OF h1 h2 h3 h4 h5 h6, of _ _ _ "16 / 1000"]
  show ?thesis
    by (simp add: jumpLatchedInAir_def new_defs const_defs Vector3_def)
qed

section \<open>Narrow phase\<close>

lemmas collision_defs = checkSphereBoxCollision_def sphereBoxLocal_def closestFaceNormal_def
  checkSphereSphereCollision_def sphereTorusLocal_def checkSphereTorusCollision_def
  noCollision_def isRotated_def makeRotationFromEuler_def determinant_def invert_def
  applyMatrix4_def

subsection \<open>Rotations\<close>

text \<open>The matrix of an Euler rotation has determinant 1, so \<open>invert\<close> never takes its
  zero-determinant branch on one.\<close>

lemma determinant_rotation: "determinant (makeRotationFromEuler r) = 1"
proof -
  have sx: "sin (x r) * sin (x r) = 1 - cos (x r) * cos (x r)"
    using sin_cos_squared_add[of "x r"] by (simp add: power2_eq_square)
  have sy: "sin (y r) * sin (y r) = 1 - cos (y r) * cos (y r)"
    using sin_cos_squared_add[of "y r"] by (simp add: power2_eq_square)
  have sz: "sin (z r) * sin (z r) = 1 - cos (z r) * cos (z r)"
    using sin_cos_squared_add[of "z r"] by (simp add: power2_eq_square)
  define a where "a = cos (x r)"
  define b where "b = sin (x r)"
  define c where "c = cos (y r)"
  define d where "d = sin (y r)"
  define e where "e = cos (z r)"
  define f where "f = sin (z r)"
  have 1: "a * a + b * b = 1" "c * c + d * d = 1" "e * e + f * f = 1"
    using sx sy sz by (simp_all add: a_def b_def c_def d_def e_def f_def)
  have "determinant (makeRotationFromEuler r) =
      c * e * ((a * e - b * f * d) * (a * c) - (- b * c) * (b * e + a * f * d))
      - (- c * f) * ((a * f + b * e * d) * (a * c) - (- b * c) * (b * f - a * e * d))
      + d * ((a * f + b * e * d) * (b * e + a * f * d) - (a * e - b * f * d) * (b * f - a * e * d))"
    by (simp add: determinant_def makeRotationFromEuler_def Let_def
        a_def b_def c_def d_def e_def f_def)
  also have "\<dots> = (a * a + b * b) * (c * c + d * d) * (e * e + f * f)"
    by (simp add: algebra_simps)
  finally show ?thesis using 1 by simp
qed

subsection \<open>Sphere against box, centre inside the box\<close>

text \<open>The axis that \<open>closestFaceNormal\<close> returns has the least distance to its face, unless
  x and y tie strictly below z: then neither strict test succeeds and the z axis is
  returned.\<close>

lemma closestFaceNormal_minimal:
  assumes "\<not> (hx - \<bar>x c\<bar> = hy - \<bar>y c\<bar> \<and> hy - \<bar>y c\<bar> < hz - \<bar>z c\<bar>)"
  shows "(closestFaceNormal c hx hy hz = Vector3 (sgn (x c)) 0 0
            \<and> hx - \<bar>x c\<bar> \<le> hy - \<bar>y c\<bar> \<and> hx - \<bar>x c\<bar> \<le> hz - \<bar>z c\<bar>)
       \<or> (closestFaceNormal c hx hy hz = Vector3 0 (sgn (y c)) 0
            \<and> hy - \<bar>y c\<bar> \<le> hx - \<bar>x c\<bar> \<and> hy - \<bar>y c\<bar> \<le> hz - \<bar>z c\<bar>)
       \<or> (closestFaceNormal c hx hy hz = Vector3 0 0 (sgn (z c))
            \<and> hz - \<bar>z c\<bar> \<le> hx - \<bar>x c\<bar> \<and> hz - \<bar>z c\<bar> \<le> hy - \<bar>y c\<bar>)"
  using assms by (auto simp add: closestFaceNormal_def Let_def)

lemma closestFaceNormal_xy_tie:
  assumes "hx - \<bar>x c\<bar> = hy - \<bar>y c\<bar>" and "hy - \<bar>y c\<bar> < hz - \<bar>z c\<bar>"
  shows "closestFaceNormal c hx hy hz = Vector3 0 0 (sgn (z c))"
  using assms by (simp add: closestFaceNormal_def Let_def)

text \<open>
  C5. The claim: with the centre inside the box the local normal is the axis of least
  distance to a face, ties included. For an unrotated box of size 2 by 2 by 10 at the
  origin and a sphere of radius 0.5 centred at (0.5, 0.5, 1), the distances are
  \<open>dx = dy = 0.5\<close> and \<open>dz = 4\<close>; the code returns the z axis, the farthest face.
\<close>

theorem sphere_box_tie_picks_far_face:
  "checkSphereBoxCollision (Vector3 (1 / 2) (1 / 2) 1) (1 / 2)
     (Vector3 0 0 0) (Vector3 0 0 0) 2 2 10
   = \<lparr>collided = True, normal = Vector3 0 0 1, penetration = 1 / 2\<rparr>"
  by (simp add: collision_defs vec_defs Let_def)

subsection \<open>Sphere against torus\<close>

lemma Vector3_sel:
  "x (Vector3 a b c) = a" "y (Vector3 a b c) = b" "z (Vector3 a b c) = c"
  by (simp_all add: Vector3_def)

lemma sqrt_scaled2:
  fixes a b m :: real
  shows "sqrt (a * m * (a * m) + b * m * (b * m)) = \<bar>m\<bar> * sqrt (a * a + b * b)"
proof -
  have "a * m * (a * m) + b * m * (b * m) = (m * m) * (a * a + b * b)"
    by (simp add: algebra_simps)
  then show ?thesis by (simp add: real_sqrt_mult)
qed

text \<open>Off the axis, inside the hole, the test reports no collision at any height: beyond
  the guard on \<open>y\<close> the general test finds the tube surface farther than the radius.\<close>

lemma sphereTorusLocal_hole_off_axis:
  assumes dpos: "0 < length2 (x c, z c)"
    and inner: "length2 (x c, z c) < R - t - r"
    and t0: "0 \<le> t" and r0: "0 \<le> r"
  shows "sphereTorusLocal c r R t = noCollision"
proof -
  define a where "a = x c"
  define b where "b = z c"
  define d where "d = sqrt (a * a + b * b)"
  have d: "length2 (x c, z c) = d" by (simp add: length2_def d_def a_def b_def)
  have d0: "0 < d" and dR: "d < R - t - r" using dpos inner d by simp_all
  define k where "k = 1 - R / d"
  have kneg: "k < 0" using d0 dR t0 r0 by (simp add: k_def)
  have kd: "\<bar>k\<bar> * d = R - d" using kneg d0 by (simp add: k_def field_simps)
  have cpc: "multiplyScalar2 (normalize2 (x c, z c)) R = (a * (R / d), b * (R / d))"
    using d0 d by (simp add: normalize2_def multiplyScalar2_def a_def b_def)
  define dir where "dir = Vector3 (a * k) 0 (b * k)"
  have dir_eq: "Vector3 (x c - a * (R / d)) (y c - y c) (z c - b * (R / d)) = dir"
    by (simp add: dir_def k_def a_def b_def algebra_simps Vector3_def)
  have dir_len: "vlength dir = R - d"
    using kd sqrt_scaled2[of a k b] by (simp add: dir_def vlength_def Vector3_def d_def)
  define m where "m = k * (1 - t / (R - d))"
  have Rd: "0 < R - d" using dR t0 r0 by simp
  have nd: "normalize dir = Vector3 (a * k / (R - d)) 0 (b * k / (R - d))"
    using dir_len Rd by (simp add: normalize_def multiplyScalar_def) (simp add: dir_def Vector3_def)
  have sub: "subVectors c (addVectors (Vector3 (a * (R / d)) (y c) (b * (R / d)))
                 (multiplyScalar (normalize dir) t)) = Vector3 (a * m) 0 (b * m)"
    unfolding nd using Rd d0
    by (simp add: subVectors_def addVectors_def multiplyScalar_def
        Vector3_def m_def k_def a_def b_def field_simps)
  have "\<bar>m\<bar> * d = \<bar>k\<bar> * d * \<bar>1 - t / (R - d)\<bar>" by (simp add: m_def abs_mult)
  also have "\<dots> = (R - d) * \<bar>1 - t / (R - d)\<bar>" using kd by simp
  also have "\<dots> = R - d - t" using d0 dR t0 r0 by (simp add: field_simps)
  finally have md: "\<bar>m\<bar> * d = R - d - t" .
  have "distanceTo c (addVectors (Vector3 (a * (R / d)) (y c) (b * (R / d)))
                 (multiplyScalar (normalize dir) t)) = vlength (Vector3 (a * m) 0 (b * m))"
    by (simp only: distanceTo_def sub)
  also have "\<dots> = \<bar>m\<bar> * d"
    using sqrt_scaled2[of a m b] by (simp add: vlength_def Vector3_def d_def)
  finally have dist: "distanceTo c (addVectors (Vector3 (a * (R / d)) (y c) (b * (R / d)))
                 (multiplyScalar (normalize dir) t)) = R - d - t"
    using md by simp
  show ?thesis
    using d d0 dR t0 r0 cpc dir_eq dir_len dist
    by (simp add: sphereTorusLocal_def Let_def noCollision_def Vector3_sel)
qed

text \<open>So inside the hole the test reports no collision off the axis at any height, and on
  the axis within \<open>tube + radius\<close> of the ring plane.\<close>

lemma sphereTorusLocal_hole:
  assumes "length2 (x c, z c) < R - t - r" and "0 \<le> t" and "0 \<le> r"
    and "0 < length2 (x c, z c) \<or> \<bar>y c\<bar> < t + r"
  shows "sphereTorusLocal c r R t = noCollision"
proof (cases "\<bar>y c\<bar> < t + r")
  case True
  then show ?thesis using assms(1) by (simp add: sphereTorusLocal_def Let_def)
next
  case False
  then have "0 < length2 (x c, z c)" using assms(4) by simp
  then show ?thesis using assms(1-3) by (rule sphereTorusLocal_hole_off_axis)
qed

text \<open>On the axis itself, beyond \<open>tube + radius\<close> from the ring plane, the closest point
  degenerates to the sphere's own centre and a collision of full depth is reported.\<close>

lemma sphereTorusLocal_on_axis:
  assumes "x c = 0" and "z c = 0" and "t + r \<le> \<bar>y c\<bar>" and "0 < r"
  shows "sphereTorusLocal c r R t = \<lparr>collided = True, normal = Vector3 0 1 0, penetration = r\<rparr>"
  using assms
  by (simp add: sphereTorusLocal_def Let_def length2_def vlength_def distanceTo_def
      subVectors_def Vector3_sel)

text \<open>
  C2. The claim: a sphere whose centre is within \<open>majorRadius - tubeRadius - radius\<close> of the
  torus's axis reports no collision, however far along the axis it is. For an unrotated
  torus at the origin with major radius 5 and tube radius 1, the marble (radius 0.8)
  centred on the axis at height 10 is reported as colliding, with penetration 0.8.
\<close>

theorem sphere_on_torus_axis_collides:
  "checkSphereTorusCollision (Vector3 0 10 0) (8 / 10)
     (Vector3 0 0 0) (Vector3 0 0 0) 5 1
   = \<lparr>collided = True, normal = Vector3 0 1 0, penetration = 8 / 10\<rparr>"
  by (simp add: collision_defs vec_defs Let_def)

section \<open>Boundary check and respawn\<close>

lemma respawnMarble_idem: "respawnMarble (respawnMarble s) = respawnMarble s"
  by (cases s) (simp add: respawnMarble_def option.map_comp comp_def)

lemma resetAndCheckBoundary_respawned:
  "resetAndCheckBoundary (respawnMarble s) = respawnMarble s"
proof -
  obtain t p jo where s: "s = (t, p, jo)" by (cases s) auto
  show ?thesis
    by (cases jo)
       (simp_all add: s resetAndCheckBoundary_def checkBoundaryCollisions_def respawnMarble_def
         Vector3_sel Vector3_def const_defs)
qed

text \<open>The start of the pass over a marble that has fallen off: the respawn sets the
  flags that were just reset.\<close>

lemma resetAndCheckBoundary_respawns:
  assumes "PLATFORM_SIZE < \<bar>x (position t)\<bar> \<or> PLATFORM_SIZE < \<bar>z (position t)\<bar>"
    and "y (position t) < - 20"
  shows "resetAndCheckBoundary (t, p, jo) =
           (t\<lparr>position := Vector3 0 MARBLE_RADIUS 0\<rparr>,
            p\<lparr>velocity := Vector3 0 0 0, isOnGround := True\<rparr>,
            map_option (\<lambda>j. j\<lparr>isJumping := False, isFalling := False, isOnSurface := True\<rparr>) jo)
       \<and> respawnMarble (respawnMarble (t, p, jo)) = respawnMarble (t, p, jo)
       \<and> resetAndCheckBoundary (respawnMarble (t, p, jo)) = respawnMarble (t, p, jo)"
proof -
  have "resetAndCheckBoundary (t, p, jo) =
           (t\<lparr>position := Vector3 0 MARBLE_RADIUS 0\<rparr>,
            p\<lparr>velocity := Vector3 0 0 0, isOnGround := True\<rparr>,
            map_option (\<lambda>j. j\<lparr>isJumping := False, isFalling := False, isOnSurface := True\<rparr>) jo)"
    using assms
    by (cases jo)
       (auto simp add: resetAndCheckBoundary_def checkBoundaryCollisions_def respawnMarble_def)
  then show ?thesis
    by (simp add: respawnMarble_idem resetAndCheckBoundary_respawned)
qed




section \<open>What the collision pass leaves alone\<close>

lemma collision_fold_frame:
  assumes "\<forall>k \<in> set ks. k < length w"
    and "length w = length world"
    and "\<forall>i < length world. \<not> isMarble (world ! i) \<longrightarrow> w ! i = world ! i"
  shows "length (foldl (\<lambda>w i. w[i := collisionEntity w (w ! i)]) w ks) = length world
       \<and> (\<forall>i < length world. \<not> isMarble (world ! i) \<longrightarrow>
            foldl (\<lambda>w i. w[i := collisionEntity w (w ! i)]) w ks ! i = world ! i)"
  using assms
proof (induction ks arbitrary: w)
  case Nil
  then show ?case by simp
next
  case (Cons k ks)
  let ?w' = "w[k := collisionEntity w (w ! k)]"
  have k: "k < length w" using Cons.prems(1) by simp
  have "\<forall>i < length world. \<not> isMarble (world ! i) \<longrightarrow> ?w' ! i = world ! i"
  proof (intro allI impI)
    fix i assume i: "i < length world" and nm: "\<not> isMarble (world ! i)"
    show "?w' ! i = world ! i"
    proof (cases "i = k")
      case True
      have "w ! k = world ! k" using Cons.prems(3) i nm True by simp
      then have "collisionEntity w (w ! k) = world ! k"
        using nm True by (simp add: collisionEntity_def)
      then show ?thesis using True k by simp
    next
      case False
      then show ?thesis using Cons.prems(3) i nm by simp
    qed
  qed
  moreover have "\<forall>k \<in> set ks. k < length ?w'" using Cons.prems(1) by simp
  moreover have "length ?w' = length world" using Cons.prems(2) by simp
  ultimately show ?case using Cons.IH[of ?w'] by simp
qed

lemma collisionUpdate_frame:
  "length (collisionUpdate world) = length world"
  "i < length world \<Longrightarrow> \<not> isMarble (world ! i) \<Longrightarrow> collisionUpdate world ! i = world ! i"
  using collision_fold_frame[of "[0..<length world]" world world]
  by (simp_all add: collisionUpdate_def)

lemma collisionUpdate_two:
  "collisionUpdate [a, b] =
     [collisionEntity [a, b] a, collisionEntity [collisionEntity [a, b] a, b] b]"
  by (simp add: collisionUpdate_def upt_rec)

lemma collisionUpdate_one: "collisionUpdate [a] = [collisionEntity [a] a]"
  by (simp add: collisionUpdate_def)

text \<open>The marble moving at (1,0,0) into a static sphere of equal radius bounces back.\<close>

lemma marble_bounces_off_sphere:
  "velocity (the (Physics (collisionUpdate [marbleTowardsSphere, staticSphere] ! 0)))
     = Vector3 (- (3 / 10)) 0 0"
  by (simp add: collisionUpdate_two collisionEntity_def isMarble_def marblePass_def
      getEntities_def collideWith_def resetAndCheckBoundary_def checkBoundaryCollisions_def
      resolveCollision_def checkSphereSphereCollision_def
      marbleTowardsSphere_def staticSphere_def new_defs const_defs vec_defs Let_def)

section \<open>Respawn within the whole pass\<close>







section \<open>The frame of the collision pass\<close>

text \<open>
  C9. The collision pass mutates marbles only: every entity of the world that is not a
  marble (no MarbleTag, or no Transform, Collider or Physics) is after the pass exactly
  what it was before, with all its components, and the world keeps its entities.
\<close>

theorem collision_pass_one_sided:
  assumes "i < length world" and "\<not> isMarble (world ! i)"
  shows "length (collisionUpdate world) = length world
       \<and> collisionUpdate world ! i = world ! i"
  using assms by (simp add: collisionUpdate_frame)

theorem collision_pass_one_sided_witness:
  "collisionUpdate [marbleTowardsSphere, staticSphere] ! 1 = staticSphere
   \<and> collisionUpdate [marbleTowardsSphere, staticSphere] ! 0 \<noteq> marbleTowardsSphere"
proof -
  have h1: "1 < length [marbleTowardsSphere, staticSphere]" by simp
  have h2: "\<not> isMarble ([marbleTowardsSphere, staticSphere] ! 1)"
    by (simp add: isMarble_def staticSphere_def)
  have "velocity (the (Physics marbleTowardsSphere)) = Vector3 1 0 0"
    by (simp add: marbleTowardsSphere_def)
  then have "collisionUpdate [marbleTowardsSphere, staticSphere] ! 0 \<noteq> marbleTowardsSphere"
    using marble_bounces_off_sphere by (auto simp add: Vector3_def)
  with collision_pass_one_sided [OF h1 h2] show ?thesis by simp
qed

text \<open>
  C4, as stated, fails for a static object that carries the marble role: the resolver
  never reads \<open>isStatic\<close>. A static marble resting at height 0.5 above the platform is
  snapped to height \<open>MARBLE_RADIUS\<close> by the boundary check.
\<close>

theorem static_marble_moved_by_resolver:
  "isStatic (the (Physics staticMarble))
   \<and> position (the (Transform staticMarble)) = Vector3 0 (1 / 2) 0
   \<and> position (the (Transform (collisionUpdate [staticMarble] ! 0))) = Vector3 0 MARBLE_RADIUS 0"
  by (simp add: collisionUpdate_one collisionEntity_def isMarble_def marblePass_def
      getEntities_def collideWith_def resetAndCheckBoundary_def checkBoundaryCollisions_def
      staticMarble_def new_defs const_defs Vector3_def)

text \<open>
  C4, amended. For every object whose Physics has \<open>isStatic\<close>, the integrator pass changes
  nothing of it, marble or not; and the collision pass changes nothing of it when it does
  not carry the marble role.
\<close>

theorem static_object_frame:
  assumes "i < length world" and "Physics (world ! i) = Some p" and "isStatic p"
  shows "physicsUpdate dt world ! i = world ! i
       \<and> (\<not> isMarble (world ! i) \<longrightarrow> collisionUpdate world ! i = world ! i)"
  using assms
  by (auto simp add: physicsUpdate_def collisionUpdate_frame intro: physicsEntity_skips)

theorem static_object_frame_witness:
  "physicsUpdate (16 / 1000) [marbleTowardsSphere, staticSphere] ! 1 = staticSphere
   \<and> collisionUpdate [marbleTowardsSphere, staticSphere] ! 1 = staticSphere"
proof -
  have h1: "1 < length [marbleTowardsSphere, staticSphere]" by simp
  have h2: "Physics ([marbleTowardsSphere, staticSphere] ! 1) = Some ((newPhysics 0 0)\<lparr>isStatic := True\<rparr>)"
    by (simp add: staticSphere_def)
  have h3: "isStatic ((newPhysics 0 0)\<lparr>isStatic := True\<rparr>)" by simp
  have h4: "\<not> isMarble ([marbleTowardsSphere, staticSphere] ! 1)"
    by (simp add: isMarble_def staticSphere_def)
  from static_object_frame [OF h1 h2 h3, of "16 / 1000"] h4 show ?thesis by simp
qed

section \<open>The jump state machine\<close>

lemma calmer_refl: "calmer j j"
  by (simp add: calmer_def)

lemma calmer_trans: "calmer a b \<Longrightarrow> calmer b c \<Longrightarrow> calmer a c"
  by (auto simp add: calmer_def)

lemma rel_calmer_trans:
  "rel_option calmer a b \<Longrightarrow> rel_option calmer b c \<Longrightarrow> rel_option calmer a c"
  by (cases a; cases b; cases c) (auto intro: calmer_trans)

lemma rel_calmer_refl: "rel_option calmer a a"
  by (cases a) (auto intro: calmer_refl)

lemma resetAndCheckBoundary_calmer:
  assumes "resetAndCheckBoundary (t, p, jo) = (t', p', jo')"
  shows "isStatic p' = isStatic p \<and> rel_option calmer jo jo'"
  using assms
  by (cases jo)
     (auto simp add: resetAndCheckBoundary_def checkBoundaryCollisions_def respawnMarble_def
        calmer_def split: if_splits)

lemma resolveCollision_calmer:
  assumes "resolveCollision (t, p, jo) oc os op c = (t', p', jo')"
  shows "isStatic p' = isStatic p \<and> rel_option calmer jo jo'"
  using assms
  by (cases jo)
     (auto simp add: resolveCollision_def Let_def calmer_def split: if_splits option.splits)

lemma collideWith_calmer:
  assumes "collideWith mid mc e (t, p, jo) = (t', p', jo')"
  shows "isStatic p' = isStatic p \<and> rel_option calmer jo jo'"
proof (cases "collideWith mid mc e (t, p, jo) = (t, p, jo)")
  case True
  then show ?thesis using assms by (simp add: rel_calmer_refl)
next
  case False
  then obtain et ec where
    "resolveCollision (t, p, jo) ec (Surface e) (Physics e) (checkCollision t mc et ec) = (t', p', jo')"
    using assms by (auto simp add: collideWith_def Let_def split: if_splits option.splits)
  then show ?thesis by (rule resolveCollision_calmer)
qed

lemma collideAll_calmer:
  assumes "collideAll mid mc es (t, p, jo) = (t', p', jo')"
  shows "isStatic p' = isStatic p \<and> rel_option calmer jo jo'"
  using assms
proof (induction es arbitrary: t p jo)
  case Nil
  then show ?case by (simp add: rel_calmer_refl)
next
  case (Cons e es)
  obtain t1 p1 jo1 where s1: "collideWith mid mc e (t, p, jo) = (t1, p1, jo1)"
    by (metis prod_cases3)
  from collideWith_calmer[OF s1] Cons.IH[of t1 p1 jo1] Cons.prems s1
  show ?case by (auto intro: rel_calmer_trans)
qed

lemma collisionEntity_calmer:
  "integrated (collisionEntity world e) = integrated e
   \<and> rel_option calmer (Jump e) (Jump (collisionEntity world e))"
proof (cases "isMarble e")
  case False
  then show ?thesis by (simp add: collisionEntity_def rel_calmer_refl)
next
  case True
  then obtain t c p where tcp: "Transform e = Some t" "Collider e = Some c" "Physics e = Some p"
    by (auto simp add: isMarble_def)
  obtain t0 p0 jo0 where b: "resetAndCheckBoundary (t, p, Jump e) = (t0, p0, jo0)"
    by (metis prod_cases3)
  obtain t' p' jo' where c: "collideAll (entityId e) c (getEntities world) (t0, p0, jo0) = (t', p', jo')"
    by (metis prod_cases3)
  have "collisionEntity world e = e\<lparr>Transform := Some t', Physics := Some p', Jump := jo'\<rparr>"
    using True tcp b c by (simp add: collisionEntity_def marblePass_def)
  then show ?thesis
    using resetAndCheckBoundary_calmer[OF b] collideAll_calmer[OF c] tcp
    by (auto simp add: integrated_def intro: rel_calmer_trans)
qed

lemma jumpInv_collision:
  assumes "jumpInv AfterPhysics e"
  shows "jumpInv AfterCollision (collisionEntity world e)"
proof -
  from collisionEntity_calmer[of world e]
  have i: "integrated (collisionEntity world e) = integrated e"
    and r: "rel_option calmer (Jump e) (Jump (collisionEntity world e))" by simp_all
  show ?thesis
    using assms i r
    by (cases "Jump e"; cases "Jump (collisionEntity world e)")
       (auto simp add: jumpInv_def calmer_def)
qed

lemma jumpInv_input:
  assumes "jumpInv AfterCollision e"
  shows "jumpInv AfterInput (inputEntity keys a e)"
  using assms
  by (cases "Jump e")
     (auto simp add: jumpInv_def inputEntity_def requestJump_def integrated_def
        split: option.splits if_splits)

lemma jumpInv_jump:
  assumes "jumpInv AfterInput e"
  shows "jumpInv AfterJump (jumpEntity dt e)"
  using assms
  by (cases "Jump e")
     (auto simp add: jumpInv_def jumpEntity_def integrated_def Let_def
        split: option.splits if_splits)

lemma processJumping_flags:
  assumes "processJumping (t, p, j) dt = (t', p', j')"
    and "\<not> (isJumping j \<and> isFalling j)" and "jumpRequested j \<longrightarrow> \<not> isFalling j"
  shows "\<not> jumpRequested j' \<and> \<not> (isJumping j' \<and> isFalling j')"
  using assms
  by (auto simp add: processJumping_def jumpApex_def jumpGravity_def jumpLaunch_def
      executeJumpIfRequested_def updateCooldown_def split: if_splits)

lemma physicsEntity_integrated: "integrated (physicsEntity dt e) = integrated e"
  by (auto simp add: integrated_def physicsEntity_def Let_def applyFriction_def
      processPlayerMovement_def dest!: processJumping_physics_frame
      split: option.splits prod.splits)

lemma jumpInv_physics:
  assumes "jumpInv AfterJump e"
  shows "jumpInv AfterPhysics (physicsEntity dt e)"
proof (cases "integrated e")
  case False
  then have "physicsEntity dt e = e"
    by (auto simp add: integrated_def physicsEntity_def split: option.splits)
  then show ?thesis using assms False by (auto simp add: jumpInv_def split: option.splits)
next
  case True
  then obtain t p where tp: "Transform e = Some t" "Physics e = Some p" "\<not> isStatic p"
    by (auto simp add: integrated_def split: option.splits)
  show ?thesis
  proof (cases "Jump e")
    case None
    then have "Jump (physicsEntity dt e) = None"
      using tp by (simp add: physicsEntity_def Let_def)
    then show ?thesis by (simp add: jumpInv_def)
  next
    case (Some j)
    obtain p1 where p1:
      "p1 = (case PlayerControl e of Some pc \<Rightarrow> processPlayerMovement p pc | None \<Rightarrow> p)"
      by simp
    obtain t' p' j' where pj: "processJumping (savePreviousPosition t, p1, j) dt = (t', p', j')"
      by (metis prod_cases3)
    have j': "Jump (physicsEntity dt e) = Some j'"
      using tp Some p1 pj by (simp add: physicsEntity_def Let_def)
    have "\<not> (isJumping j \<and> isFalling j)" "jumpRequested j \<longrightarrow> \<not> isFalling j"
      using assms Some True by (auto simp add: jumpInv_def)
    from processJumping_flags[OF pj this] show ?thesis
      using j' True physicsEntity_integrated[of dt e] by (simp add: jumpInv_def)
  qed
qed

lemma tickReachable_jumpInv:
  assumes "tickReachable e0 ph e" and "jumpInv AfterCollision e0"
  shows "jumpInv ph e"
  using assms
  by (induction rule: tickReachable.induct)
     (auto intro: jumpInv_input jumpInv_jump jumpInv_physics jumpInv_collision)

lemma marbleRequested_eq:
  "marbleRequested =
     marbleInAir\<lparr>PlayerControl :=
                   Some ((newPlayerControl MARBLE_SPEED)
                           \<lparr>moveDirection := setMoveDirection spaceKey 0\<rparr>),
                 Jump := Some ((newJump JUMP_POWER)\<lparr>jumpRequested := True\<rparr>)\<rparr>"
  by (simp add: marbleRequested_def inputEntity_def marbleInAir_def createMarble_def
      spaceKey_def requestJump_def newJump_def)

lemma marbleBothFlags_jump:
  "Jump marbleBothFlags =
     Some ((newJump JUMP_POWER)\<lparr>isJumping := True, isFalling := True, isOnSurface := False,
        jumpCooldown := 2 / 10\<rparr>)"
proof -
  have e2: "collisionEntity [marbleRequested] marbleRequested =
      marbleInAir\<lparr>PlayerControl :=
                    Some ((newPlayerControl MARBLE_SPEED)
                            \<lparr>moveDirection := setMoveDirection spaceKey 0\<rparr>),
                  Jump := Some ((newJump JUMP_POWER)
                                  \<lparr>jumpRequested := True, isOnSurface := False\<rparr>)\<rparr>"
    unfolding marbleRequested_eq
    by (simp add: collisionEntity_def isMarble_def marblePass_def getEntities_def
        collideWith_def resetAndCheckBoundary_def checkBoundaryCollisions_def
        marbleInAir_def new_defs const_defs Vector3_def)
  have e3: "jumpEntity (16 / 1000) (collisionEntity [marbleRequested] marbleRequested) =
      marbleInAir\<lparr>PlayerControl :=
                    Some ((newPlayerControl MARBLE_SPEED)
                            \<lparr>moveDirection := setMoveDirection spaceKey 0\<rparr>),
                  Jump := Some ((newJump JUMP_POWER)
                                  \<lparr>jumpRequested := True, isOnSurface := False,
                                    isFalling := True\<rparr>)\<rparr>"
    unfolding e2
    by (simp add: jumpEntity_def marbleInAir_def new_defs Let_def)
  show ?thesis
    unfolding marbleBothFlags_def e3
    by (simp add: physicsEntity_def Let_def processJumping_requested marbleInAir_def
        processPlayerMovement_def new_defs const_defs)
qed

text \<open>
  C3, as stated, fails: with the passes in any order, the factory's marble in mid-air, in
  the initial Grounded state, reaches a state with both flags. The space key is down in the
  input pass (the request is latched, the guard holds), the collision pass finds no contact
  and clears
  \<open>isOnSurface\<close>, the jump transition pass sets \<open>isFalling\<close>, and the integrator then
  launches the latched jump without looking at \<open>isFalling\<close>.
\<close>

theorem jumping_and_falling_reachable:
  "reachable marbleInAir marbleBothFlags
   \<and> isOnSurface (the (Jump marbleInAir)) \<and> \<not> isJumping (the (Jump marbleInAir))
   \<and> \<not> isFalling (the (Jump marbleInAir))
   \<and> isJumping (the (Jump marbleBothFlags)) \<and> isFalling (the (Jump marbleBothFlags))"
proof -
  have "reachable marbleInAir marbleBothFlags"
    unfolding marbleBothFlags_def
    unfolding marbleRequested_def
    by (intro reachable.physicsPass reachable.jumpPass reachable.collisionPass
        reachable.input reachable.start)
  then show ?thesis
    by (simp add: marbleBothFlags_jump) (simp add: marbleInAir_def new_defs)
qed

text \<open>
  C3, amended. In every state reachable from the initial Grounded state by running the
  passes in the order of the game loop (input, jump transition, integrator, collision,
  and again), with arbitrary inputs, and also between two passes, \<open>isJumping\<close> and
  \<open>isFalling\<close> are never both true.
\<close>

theorem jumping_and_falling_exclusive:
  assumes "Jump e0 = Some j0"
    and "isOnSurface j0" and "\<not> isJumping j0" and "\<not> isFalling j0"
    and "tickReachable e0 ph e"
    and "Jump e = Some j"
  shows "\<not> (isJumping j \<and> isFalling j)"
proof -
  have "jumpInv AfterCollision e0"
    using assms(1-4) by (simp add: jumpInv_def)
  from tickReachable_jumpInv[OF assms(5) this] assms(6)
  show ?thesis by (simp add: jumpInv_def)
qed

lemma marbleLaunched_jump:
  "Jump marbleLaunched =
     Some ((newJump JUMP_POWER)\<lparr>isJumping := True, isOnSurface := False, jumpCooldown := 2 / 10\<rparr>)"
proof -
  have e3: "jumpEntity (16 / 1000) marbleRequested = marbleRequested"
    unfolding marbleRequested_eq
    by (simp add: jumpEntity_def marbleInAir_def new_defs Let_def)
  show ?thesis
    unfolding marbleLaunched_def e3 unfolding marbleRequested_eq
    by (simp add: physicsEntity_def Let_def processJumping_requested marbleInAir_def
        processPlayerMovement_def new_defs const_defs)
qed

theorem jumping_and_falling_exclusive_witness:
  "tickReachable marbleInAir AfterPhysics marbleLaunched
   \<and> isJumping (the (Jump marbleLaunched)) \<and> \<not> isFalling (the (Jump marbleLaunched))"
proof -
  have r: "tickReachable marbleInAir AfterPhysics marbleLaunched"
    unfolding marbleLaunched_def marbleRequested_def
    by (intro tickReachable.tickPhysics tickReachable.tickJump tickReachable.tickInput
        tickReachable.tickStart)
  have h0: "Jump marbleInAir = Some (newJump JUMP_POWER)"
    by (simp add: marbleInAir_def createMarble_def)
  have h1: "isOnSurface (newJump JUMP_POWER)" "\<not> isJumping (newJump JUMP_POWER)"
    "\<not> isFalling (newJump JUMP_POWER)" by (simp_all add: newJump_def)
  from jumping_and_falling_exclusive [OF h0 h1 r marbleLaunched_jump] r
  show ?thesis by (simp add: marbleLaunched_jump)
qed

end
